theory Spec2Isabelle
  imports Complex_Main "HOL-Library.Sublist"
begin

section \<open>Data model\<close>

text \<open>
  The repository is two Python scripts, \<^verbatim>\<open>main.py\<close> and \<^verbatim>\<open>simple_example.py\<close>, that
  drive a text-to-speech SDK. The SDK (client, \<^verbatim>\<open>save\<close>, \<^verbatim>\<open>play\<close>, \<^verbatim>\<open>stream\<close>) and the
  remote service are not part of the repository: they are external collaborators, and the
  model takes their outcomes as a parameter and records every call made to them.

  Python \<^verbatim>\<open>str\<close> and \<^verbatim>\<open>bytes\<close> are lists of characters here. The only string operation
  of the source that looks inside a string is \<^verbatim>\<open>lower()\<close>; it is a parameter of the model,
  like the SDK, and nothing is assumed of it beyond what a statement says.
  Python exceptions are values. Only instances of \<^verbatim>\<open>Exception\<close> are modelled (these are
  what \<^verbatim>\<open>except Exception\<close> catches); \<open>ValueError\<close> stands for that class and its
  subclasses, \<open>OtherError\<close> for every other subclass of \<^verbatim>\<open>Exception\<close>.
\<close>

type_synonym bytes = string

datatype exn = ValueError string | OtherError string

text \<open>\<^verbatim>\<open>VoiceSettings(stability=, similarity_boost=, style=, use_speaker_boost=)\<close>: the three
  numbers are only stored and forwarded by the source, never computed with.\<close>

record voice_settings =
  stability :: real
  similarity_boost :: real
  style :: real
  use_speaker_boost :: bool

text \<open>\<^verbatim>\<open>Voice(...)\<close> as the source builds it for a request: every keyword is optional, the
  source passes either \<^verbatim>\<open>name\<close> alone or \<^verbatim>\<open>voice_id\<close> with \<^verbatim>\<open>settings\<close>.\<close>

record voice =
  voice_id :: "string option"
  name :: "string option"
  settings :: "voice_settings option"

text \<open>The \<^verbatim>\<open>voice\<close> argument of \<^verbatim>\<open>generate\<close> is a \<^verbatim>\<open>Voice\<close> object in \<^verbatim>\<open>main.py\<close> and a
  plain string in \<^verbatim>\<open>simple_example.py\<close>.\<close>

datatype voice_arg = VoiceObj voice | VoiceStr string

text \<open>Modelled from the spec: the entries of the remote voice listing. The SDK class that
  declares them is missing from the repository; the spec's VoiceDescriptor has an identifier,
  a display name, a category (all strings) and an optional description. The source reads
  exactly these four attributes.\<close>

record voice_descriptor =
  vd_voice_id :: string
  vd_name :: string
  vd_category :: string
  vd_description :: "string option"

text \<open>The keyword arguments of one \<^verbatim>\<open>client.generate(...)\<close> call. \<open>req_stream\<close> is \<open>None\<close>
  where the source omits the keyword.\<close>

record request =
  req_text :: string
  req_voice :: voice_arg
  req_model :: string
  req_stream :: "bool option"

text \<open>What \<^verbatim>\<open>generate\<close> hands back: one byte buffer, or a sequence of chunks.\<close>

datatype audio = Buffer bytes | ChunkSeq "bytes list"

fun audio_bytes :: "audio \<Rightarrow> bytes" where
  "audio_bytes (Buffer b) = b"
| "audio_bytes (ChunkSeq cs) = concat cs"

text \<open>\<^verbatim>\<open>ElevenLabs(api_key=...)\<close>: the client handle holds the credential.\<close>

datatype client = ElevenLabs (client_api_key: string)

text \<open>Every call that leaves the script, in the order made.\<close>

datatype call =
    NewClient string
  | GetAll client
  | Generate client request
  | Save audio string
  | Play audio
  | Stream audio

text \<open>
  One constructor per \<^verbatim>\<open>print\<close> statement whose text is not plain ASCII, carrying the values
  the f-string interpolates; \<open>Line\<close> is a printed line of plain ASCII.
  In \<^verbatim>\<open>main.py\<close>: \<open>MsgFetchingVoices\<close> l.52, \<open>MsgFoundVoices\<close> l.55, \<open>MsgVoiceName\<close> l.59,
  \<open>MsgVoiceCategory\<close> l.61, \<open>MsgVoiceDescription\<close> l.62, \<open>MsgBasicTts\<close> l.76,
  \<open>MsgUsingVoice\<close> l.77, \<open>MsgSaved\<close> l.89, \<open>MsgPlaying\<close> l.92, \<open>MsgError\<close> l.96, 149, 176,
  \<open>MsgAdvancedHeader\<close> l.118, \<open>MsgStability\<close> l.119, \<open>MsgSimilarity\<close> l.120, \<open>MsgStyle\<close> l.121,
  \<open>MsgSpeakerBoost\<close> l.122, \<open>MsgAdvancedSaved\<close> l.145, \<open>MsgStreamingTts\<close> l.159,
  \<open>MsgStreamingPlaying\<close> l.160, \<open>MsgStreamingDone\<close> l.173, \<open>MsgMultiVoice\<close> l.201,
  \<open>MsgVoiceIndex\<close> l.207, \<open>MsgVoiceSaved\<close> l.217, \<open>MsgVoiceFailed\<close> l.224, \<open>MsgBanner\<close> l.231,
  \<open>MsgDemoHeading n\<close> l.239, 243, 252, 264, 271 (n = 1..5), \<open>MsgAllDone\<close> l.276,
  \<open>MsgCheckFiles\<close> l.277, \<open>MsgConfigError\<close> l.280, \<open>MsgSetupHeading\<close> l.281,
  \<open>MsgSetupStep n\<close> l.282-284 (n = 1..3), \<open>MsgUnexpected\<close> l.287.
  In \<^verbatim>\<open>simple_example.py\<close>: \<open>MsgSimpleBanner\<close> l.50, \<open>MsgSimpleDone\<close> l.61.
\<close>

datatype msg =
    Line string
  | MsgFetchingVoices
  | MsgFoundVoices nat
  | MsgVoiceName string
  | MsgVoiceCategory string
  | MsgVoiceDescription string
  | MsgBasicTts string
  | MsgUsingVoice string
  | MsgSaved string
  | MsgPlaying
  | MsgError exn
  | MsgAdvancedHeader
  | MsgStability real
  | MsgSimilarity real
  | MsgStyle real
  | MsgSpeakerBoost bool
  | MsgAdvancedSaved string
  | MsgStreamingTts string
  | MsgStreamingPlaying
  | MsgStreamingDone
  | MsgMultiVoice string
  | MsgVoiceIndex nat string
  | MsgVoiceSaved string
  | MsgVoiceFailed string exn
  | MsgBanner
  | MsgDemoHeading nat
  | MsgAllDone
  | MsgCheckFiles
  | MsgConfigError exn
  | MsgSetupHeading
  | MsgSetupStep nat
  | MsgUnexpected exn
  | MsgSimpleBanner
  | MsgSimpleDone

text \<open>The state the scripts act on: the process environment, the files written, the
  console, and the log of external calls.\<close>

record world =
  environ :: "string \<Rightarrow> string option"
  files :: "string \<Rightarrow> bytes option"
  console :: "msg list"
  calls :: "call list"

text \<open>
  The external collaborators. Each outcome may depend on the whole history of external
  calls made so far (the first argument), so a collaborator may answer the same call
  differently at different times. \<open>None\<close> from an \<open>_error\<close> field means the call succeeded.

  Two more things the scripts use and do not define. \<open>voice_without_id\<close> is what the SDK's
  \<^verbatim>\<open>Voice(...)\<close> constructor does with keywords that carry no \<^verbatim>\<open>voice_id\<close>: \<open>Some e\<close> when it
  raises \<open>e\<close>, \<open>None\<close> when it builds the object. \<open>str_lower\<close> is Python's \<^verbatim>\<open>str.lower()\<close>,
  a function over all of Unicode that may also change the length of a string.
\<close>

record sdk =
  voices_get_all :: "call list \<Rightarrow> client \<Rightarrow> exn + voice_descriptor list"
  generate :: "call list \<Rightarrow> client \<Rightarrow> request \<Rightarrow> exn + audio"
  save_error :: "call list \<Rightarrow> audio \<Rightarrow> string \<Rightarrow> exn option"
  play_error :: "call list \<Rightarrow> audio \<Rightarrow> exn option"
  stream_error :: "call list \<Rightarrow> audio \<Rightarrow> exn option"
  voice_without_id :: "voice \<Rightarrow> exn option"
  str_lower :: "string \<Rightarrow> string"

section \<open>Statements, exceptions and external calls\<close>

text \<open>A Python statement takes the world to a new world and either raises (\<open>Inl\<close>) or
  yields a value (\<open>Inr\<close>).\<close>

type_synonym 'a io = "world \<Rightarrow> world \<times> (exn + 'a)"

definition return_io :: "'a \<Rightarrow> 'a io" where
  "return_io x w = (w, Inr x)"

definition raise_io :: "exn \<Rightarrow> 'a io" where
  "raise_io e w = (w, Inl e)"

definition bind_io :: "'a io \<Rightarrow> ('a \<Rightarrow> 'b io) \<Rightarrow> 'b io" where
  "bind_io m f w = (case m w of (w', Inl e) \<Rightarrow> (w', Inl e) | (w', Inr x) \<Rightarrow> f x w')"

definition then_io :: "'a io \<Rightarrow> 'b io \<Rightarrow> 'b io" where
  "then_io m n = bind_io m (\<lambda>_. n)"

text \<open>\<^verbatim>\<open>try: m except Exception as e: h e\<close>\<close>

definition try_except :: "'a io \<Rightarrow> (exn \<Rightarrow> 'a io) \<Rightarrow> 'a io" where
  "try_except m h w = (case m w of (w', Inl e) \<Rightarrow> h e w' | (w', Inr x) \<Rightarrow> (w', Inr x))"

definition py_print :: "msg \<Rightarrow> unit io" where
  "py_print m w = (w\<lparr>console := console w @ [m]\<rparr>, Inr ())"

definition record_call :: "call \<Rightarrow> world \<Rightarrow> world" where
  "record_call c w = w\<lparr>calls := calls w @ [c]\<rparr>"

text \<open>\<^verbatim>\<open>os.getenv(name)\<close> and \<^verbatim>\<open>os.getenv(name, default)\<close>\<close>

definition getenv :: "string \<Rightarrow> string option io" where
  "getenv var w = (w, Inr (environ w var))"

definition getenv_default :: "string \<Rightarrow> string \<Rightarrow> string io" where
  "getenv_default var dflt w =
     (w, Inr (case environ w var of None \<Rightarrow> dflt | Some v \<Rightarrow> v))"

definition new_client :: "string \<Rightarrow> client io" where
  "new_client k w = (record_call (NewClient k) w, Inr (ElevenLabs k))"

definition client_voices_get_all :: "sdk \<Rightarrow> client \<Rightarrow> voice_descriptor list io" where
  "client_voices_get_all s c w = (record_call (GetAll c) w, voices_get_all s (calls w) c)"

definition client_generate :: "sdk \<Rightarrow> client \<Rightarrow> request \<Rightarrow> audio io" where
  "client_generate s c r w = (record_call (Generate c r) w, generate s (calls w) c r)"

text \<open>\<^verbatim>\<open>save(audio, filename)\<close> writes the bytes of the audio to the file; a failed write
  is taken to leave the file as it was.\<close>

definition save :: "sdk \<Rightarrow> audio \<Rightarrow> string \<Rightarrow> unit io" where
  "save s a path w =
     (case save_error s (calls w) a path of
        Some e \<Rightarrow> (record_call (Save a path) w, Inl e)
      | None \<Rightarrow> (record_call (Save a path) (w\<lparr>files := (files w)(path \<mapsto> audio_bytes a)\<rparr>), Inr ()))"

definition play :: "sdk \<Rightarrow> audio \<Rightarrow> unit io" where
  "play s a w =
     (record_call (Play a) w, case play_error s (calls w) a of Some e \<Rightarrow> Inl e | None \<Rightarrow> Inr ())"

definition stream :: "sdk \<Rightarrow> audio \<Rightarrow> unit io" where
  "stream s a w =
     (record_call (Stream a) w, case stream_error s (calls w) a of Some e \<Rightarrow> Inl e | None \<Rightarrow> Inr ())"

text \<open>
  \<^verbatim>\<open>Voice(...)\<close> is a call of the SDK's constructor, made where the source writes it, so
  inside the \<^verbatim>\<open>try\<close> of the operation. The identifier is the field a \<^verbatim>\<open>Voice\<close> must have:
  with \<^verbatim>\<open>voice_id\<close> the object is built (the use at l.126); without it (the uses at l.83,
  166 and 211, which pass \<^verbatim>\<open>name\<close> alone) the outcome is the SDK's, and the released SDK
  raises a validation error there.
\<close>

definition new_voice :: "sdk \<Rightarrow> voice \<Rightarrow> voice io" where
  "new_voice s v w =
     (case voice_id v of
        Some _ \<Rightarrow> (w, Inr v)
      | None \<Rightarrow> (case voice_without_id s v of Some e \<Rightarrow> (w, Inl e) | None \<Rightarrow> (w, Inr v)))"

text \<open>The keywords of \<^verbatim>\<open>Voice(name=voice_name)\<close>.\<close>

definition voice_by_name :: "string \<Rightarrow> voice" where
  "voice_by_name n = \<lparr>voice_id = None, name = Some n, settings = None\<rparr>"

section \<open>Python strings\<close>

text \<open>Truthiness of an \<^verbatim>\<open>Optional[str]\<close>, and \<^verbatim>\<open>x or y\<close>.\<close>

fun truthy :: "string option \<Rightarrow> bool" where
  "truthy None = False"
| "truthy (Some v) = (v \<noteq> [])"

definition py_or :: "string option \<Rightarrow> string option \<Rightarrow> string option" where
  "py_or x y = (if truthy x then x else y)"

text \<open>
  \<^verbatim>\<open>str.lower()\<close> itself is the parameter \<open>str_lower\<close> above. What is known of it here is
  only what it does to a string of ASCII characters: A-Z move to a-z and every other
  character stays. \<open>ascii_lower\<close> is that folding, and \<open>lowers_ascii f\<close> says that \<open>f\<close>
  agrees with it on the strings all of whose characters are ASCII; on any other string
  \<open>f\<close> is left free.
\<close>

definition ascii_lower_char :: "char \<Rightarrow> char" where
  "ascii_lower_char c =
     (let n = (of_char c :: nat) in if 65 \<le> n \<and> n \<le> 90 then char_of (n + 32) else c)"

definition ascii_lower :: "string \<Rightarrow> string" where
  "ascii_lower xs = map ascii_lower_char xs"

definition lowers_ascii :: "(string \<Rightarrow> string) \<Rightarrow> bool" where
  "lowers_ascii f = (\<forall>xs. (\<forall>c \<in> set xs. (of_char c :: nat) < 128) \<longrightarrow> f xs = ascii_lower xs)"

text \<open>\<^verbatim>\<open>str(i)\<close> of a non-negative integer, as an f-string formats it.\<close>

fun str_nat :: "nat \<Rightarrow> string" where
  "str_nat n =
     (if n < 10 then [char_of (48 + n)] else str_nat (n div 10) @ [char_of (48 + n mod 10)])"

declare str_nat.simps [simp del]

section \<open>main.py: class ElevenLabsDemo\<close>

record demo =
  api_key :: string
  client :: client

definition API_KEY_VAR :: string where
  "API_KEY_VAR = ''ELEVENLABS_API_KEY''"

definition API_KEY_REQUIRED :: string where
  "API_KEY_REQUIRED =
     ''API key is required. Set ELEVENLABS_API_KEY environment variable or pass api_key parameter''"

text \<open>\<^verbatim>\<open>ElevenLabsDemo.__init__\<close> (l.32-43)\<close>

definition ElevenLabsDemo_init :: "string option \<Rightarrow> demo io" where
  "ElevenLabsDemo_init api_key_param =
     bind_io (getenv API_KEY_VAR) (\<lambda>env_key.
       case py_or api_key_param env_key of
         None \<Rightarrow> raise_io (ValueError API_KEY_REQUIRED)
       | Some k \<Rightarrow>
           if k = [] then raise_io (ValueError API_KEY_REQUIRED)
           else bind_io (new_client k) (\<lambda>c. return_io \<lparr>api_key = k, client = c\<rparr>))"

text \<open>\<^verbatim>\<open>list_voices\<close> (l.45-65). The remote call is outside any \<^verbatim>\<open>try\<close>: its error goes to
  the caller.\<close>

definition print_voice :: "voice_descriptor \<Rightarrow> unit io" where
  "print_voice v =
     then_io (py_print (MsgVoiceName (vd_name v)))
    (then_io (py_print (Line (''   ID: '' @ vd_voice_id v)))
    (then_io (py_print (MsgVoiceCategory (vd_category v)))
    (then_io (py_print (MsgVoiceDescription
                (if truthy (vd_description v) then the (vd_description v) else ''N/A'')))
             (py_print (Line '''')))))"

fun for_each :: "('a \<Rightarrow> unit io) \<Rightarrow> 'a list \<Rightarrow> unit io" where
  "for_each body [] = return_io ()"
| "for_each body (x # xs) = then_io (body x) (for_each body xs)"

definition list_voices :: "sdk \<Rightarrow> demo \<Rightarrow> voice_descriptor list io" where
  "list_voices s self =
     then_io (py_print MsgFetchingVoices)
    (bind_io (client_voices_get_all s (client self)) (\<lambda>voices.
     then_io (py_print (MsgFoundVoices (length voices)))
    (then_io (py_print (Line (replicate 50 (CHR ''-''))))
    (then_io (for_each print_voice voices)
             (return_io voices)))))"

text \<open>\<^verbatim>\<open>basic_tts\<close> (l.67-96)\<close>

definition basic_tts :: "sdk \<Rightarrow> demo \<Rightarrow> string \<Rightarrow> string \<Rightarrow> string \<Rightarrow> unit io" where
  "basic_tts s self text voice_name output_file =
     then_io (py_print (MsgBasicTts (take 50 text)))
    (then_io (py_print (MsgUsingVoice voice_name))
    (try_except
       (bind_io (new_voice s (voice_by_name voice_name)) (\<lambda>voice.
        bind_io (client_generate s (client self)
                   \<lparr>req_text = text,
                    req_voice = VoiceObj voice,
                    req_model = ''eleven_monolingual_v1'',
                    req_stream = None\<rparr>) (\<lambda>audio.
        then_io (save s audio output_file)
       (then_io (py_print (MsgSaved output_file))
       (then_io (py_print MsgPlaying)
                (play s audio))))))
       (\<lambda>e. py_print (MsgError e))))"

text \<open>\<^verbatim>\<open>advanced_tts_with_settings\<close> (l.98-149)\<close>

definition advanced_tts_with_settings ::
  "sdk \<Rightarrow> demo \<Rightarrow> string \<Rightarrow> string \<Rightarrow> real \<Rightarrow> real \<Rightarrow> real \<Rightarrow> bool \<Rightarrow> string \<Rightarrow> unit io" where
  "advanced_tts_with_settings s self text vid stab sim sty boost output_file =
     then_io (py_print MsgAdvancedHeader)
    (then_io (py_print (MsgStability stab))
    (then_io (py_print (MsgSimilarity sim))
    (then_io (py_print (MsgStyle sty))
    (then_io (py_print (MsgSpeakerBoost boost))
    (try_except
       (bind_io (new_voice s
                   \<lparr>voice_id = Some vid, name = None,
                    settings = Some \<lparr>stability = stab, similarity_boost = sim,
                                     style = sty, use_speaker_boost = boost\<rparr>\<rparr>) (\<lambda>voice.
        bind_io (client_generate s (client self)
                   \<lparr>req_text = text,
                    req_voice = VoiceObj voice,
                    req_model = ''eleven_multilingual_v2'',
                    req_stream = None\<rparr>) (\<lambda>audio.
        then_io (save s audio output_file)
       (then_io (py_print (MsgAdvancedSaved output_file))
                (play s audio)))))
       (\<lambda>e. py_print (MsgError e)))))))"

text \<open>\<^verbatim>\<open>streaming_tts\<close> (l.151-176)\<close>

definition streaming_tts :: "sdk \<Rightarrow> demo \<Rightarrow> string \<Rightarrow> string \<Rightarrow> unit io" where
  "streaming_tts s self text voice_name =
     then_io (py_print (MsgStreamingTts (take 50 text)))
    (then_io (py_print MsgStreamingPlaying)
    (try_except
       (bind_io (new_voice s (voice_by_name voice_name)) (\<lambda>voice.
        bind_io (client_generate s (client self)
                   \<lparr>req_text = text,
                    req_voice = VoiceObj voice,
                    req_model = ''eleven_turbo_v2'',
                    req_stream = Some True\<rparr>) (\<lambda>audio_stream.
        then_io (stream s audio_stream)
                (py_print MsgStreamingDone))))
       (\<lambda>e. py_print (MsgError e))))"

text \<open>\<^verbatim>\<open>get_voice_by_name\<close> (l.178-192): the loop returns at the first voice whose
  lowercased name equals the lowercased query; \<open>lower\<close> is the \<^verbatim>\<open>str.lower()\<close> of the run.\<close>

fun scan_voices ::
  "(string \<Rightarrow> string) \<Rightarrow> voice_descriptor list \<Rightarrow> string \<Rightarrow> voice_descriptor option" where
  "scan_voices lower [] voice_name = None"
| "scan_voices lower (v # vs) voice_name =
     (if lower (vd_name v) = lower voice_name then Some v
      else scan_voices lower vs voice_name)"

definition get_voice_by_name :: "sdk \<Rightarrow> demo \<Rightarrow> string \<Rightarrow> voice_descriptor option io" where
  "get_voice_by_name s self voice_name =
     bind_io (client_voices_get_all s (client self)) (\<lambda>voices.
       return_io (scan_voices (str_lower s) voices voice_name))"

text \<open>\<^verbatim>\<open>demo_multiple_voices\<close> (l.194-224): the list of voices is a literal of the
  method, not an argument.\<close>

definition demo_voices :: "string list" where
  "demo_voices = [''Rachel'', ''Drew'', ''Clyde'', ''Paul'']"

definition demo_output_file :: "sdk \<Rightarrow> nat \<Rightarrow> string \<Rightarrow> string" where
  "demo_output_file s i voice_name =
     ''demo_voice_'' @ str_nat i @ ''_'' @ str_lower s voice_name @ ''.mp3''"

definition demo_voice_body :: "sdk \<Rightarrow> demo \<Rightarrow> string \<Rightarrow> nat \<times> string \<Rightarrow> unit io" where
  "demo_voice_body s self text = (\<lambda>(i, voice_name).
     then_io (py_print (MsgVoiceIndex i voice_name))
    (try_except
       (bind_io (new_voice s (voice_by_name voice_name)) (\<lambda>voice.
        bind_io (client_generate s (client self)
                   \<lparr>req_text = text,
                    req_voice = VoiceObj voice,
                    req_model = ''eleven_monolingual_v1'',
                    req_stream = None\<rparr>) (\<lambda>audio.
        bind_io (return_io (demo_output_file s i voice_name)) (\<lambda>output_file.
        then_io (save s audio output_file)
                (py_print (MsgVoiceSaved output_file))))))
       (\<lambda>e. py_print (MsgVoiceFailed voice_name e))))"

definition demo_multiple_voices :: "sdk \<Rightarrow> demo \<Rightarrow> string \<Rightarrow> unit io" where
  "demo_multiple_voices s self text =
     then_io (py_print (MsgMultiVoice text))
             (for_each (demo_voice_body s self text) (enumerate 1 demo_voices))"

section \<open>main.py: main\<close>

definition BASIC_TEXT :: string where
  "BASIC_TEXT = ''Hello! This is a demonstration of ElevenLabs text-to-speech API. The quality is quite impressive!''"

definition ADVANCED_TEXT :: string where
  "ADVANCED_TEXT = ''This is an advanced example with custom voice settings. Notice the difference in tone and style.''"

definition STREAMING_TEXT :: string where
  "STREAMING_TEXT = ''This is a streaming example. The audio should play in real-time as it'' @ [CHR 0x27] @ ''s being generated.''"

definition COMPARE_TEXT :: string where
  "COMPARE_TEXT = ''This is the same text spoken by different voices for comparison.''"

text \<open>\<^verbatim>\<open>main\<close> (l.227-287). The call at l.254 leaves \<^verbatim>\<open>use_speaker_boost\<close> at its default,
  \<^verbatim>\<open>True\<close>. The first handler takes \<^verbatim>\<open>ValueError\<close>, the second every other exception.\<close>

definition main :: "sdk \<Rightarrow> unit io" where
  "main s =
     then_io (py_print MsgBanner)
    (then_io (py_print (Line (replicate 40 (CHR ''=''))))
    (try_except
       (bind_io (ElevenLabsDemo_init None) (\<lambda>demo.
        then_io (py_print (MsgDemoHeading 1))
       (bind_io (list_voices s demo) (\<lambda>voices.
        then_io (py_print (MsgDemoHeading 2))
       (then_io (basic_tts s demo BASIC_TEXT ''Rachel'' ''demo_basic.mp3'')
       (then_io (case voices of
                   [] \<Rightarrow> return_io ()
                 | first_voice # _ \<Rightarrow>
                     then_io (py_print (MsgDemoHeading 3))
                             (advanced_tts_with_settings s demo ADVANCED_TEXT
                                (vd_voice_id first_voice) 0.7 0.8 0.2 True ''demo_advanced.mp3''))
       (then_io (py_print (MsgDemoHeading 4))
       (then_io (streaming_tts s demo STREAMING_TEXT ''Rachel'')
       (then_io (py_print (MsgDemoHeading 5))
       (then_io (demo_multiple_voices s demo COMPARE_TEXT)
       (then_io (py_print MsgAllDone)
                (py_print MsgCheckFiles))))))))))))
       (\<lambda>e. case e of
               ValueError _ \<Rightarrow>
                 then_io (py_print (MsgConfigError e))
                (then_io (py_print MsgSetupHeading)
                (then_io (py_print (MsgSetupStep 1))
                (then_io (py_print (MsgSetupStep 2))
                         (py_print (MsgSetupStep 3)))))
             | OtherError _ \<Rightarrow> py_print (MsgUnexpected e))))"

section \<open>simple_example.py\<close>

text \<open>\<^verbatim>\<open>list_available_voices\<close> (l.39-47) and \<^verbatim>\<open>simple_text_to_speech\<close> (l.17-37); neither has
  a \<^verbatim>\<open>try\<close>.\<close>

definition list_available_voices :: "sdk \<Rightarrow> client \<Rightarrow> unit io" where
  "list_available_voices s elevenlabs =
     bind_io (client_voices_get_all s elevenlabs) (\<lambda>voices.
     then_io (py_print (Line ''Available voices:''))
             (for_each (\<lambda>v. py_print (Line (''- '' @ vd_name v @ '' (ID: '' @ vd_voice_id v @ '')'')))
                voices))"

definition SIMPLE_TEXT :: string where
  "SIMPLE_TEXT = ''Hello! This is a simple example of using ElevenLabs API in Python.''"

definition simple_text_to_speech :: "sdk \<Rightarrow> client \<Rightarrow> unit io" where
  "simple_text_to_speech s elevenlabs =
     bind_io (client_generate s elevenlabs
                \<lparr>req_text = SIMPLE_TEXT,
                 req_voice = VoiceStr ''Rachel'',
                 req_model = ''eleven_monolingual_v1'',
                 req_stream = None\<rparr>) (\<lambda>audio.
     then_io (save s audio ''simple_output.mp3'')
    (then_io (py_print (Line ''Audio saved to simple_output.mp3''))
    (then_io (play s audio)
             (py_print (Line ''Playing audio...'')))))"

text \<open>The script run as a program: the module-level client (l.13-15), then the
  \<^verbatim>\<open>__main__\<close> block (l.49-61).\<close>

definition simple_example :: "sdk \<Rightarrow> unit io" where
  "simple_example s =
     bind_io (getenv_default API_KEY_VAR ''YOUR_API_KEY'') (\<lambda>k.
     bind_io (new_client k) (\<lambda>elevenlabs.
     then_io (py_print MsgSimpleBanner)
    (then_io (py_print (Line (replicate 30 (CHR ''-''))))
    (then_io (list_available_voices s elevenlabs)
    (then_io (py_print (Line ''''))
    (then_io (simple_text_to_speech s elevenlabs)
             (py_print MsgSimpleDone)))))))"

section \<open>Observing a run\<close>

text \<open>What a test double would record: the requests handed to \<^verbatim>\<open>generate\<close>, the paths
  handed to \<^verbatim>\<open>save\<close>, the buffers handed to \<^verbatim>\<open>play\<close> and the chunks handed to \<^verbatim>\<open>stream\<close>,
  each in call order.\<close>

fun generate_requests :: "call list \<Rightarrow> request list" where
  "generate_requests [] = []"
| "generate_requests (Generate c r # cs) = r # generate_requests cs"
| "generate_requests (_ # cs) = generate_requests cs"

fun saved_paths :: "call list \<Rightarrow> string list" where
  "saved_paths [] = []"
| "saved_paths (Save a p # cs) = p # saved_paths cs"
| "saved_paths (_ # cs) = saved_paths cs"

fun played :: "call list \<Rightarrow> audio list" where
  "played [] = []"
| "played (Play a # cs) = a # played cs"
| "played (_ # cs) = played cs"

fun streamed_chunks :: "call list \<Rightarrow> bytes list" where
  "streamed_chunks [] = []"
| "streamed_chunks (Stream (ChunkSeq xs) # cs) = xs @ streamed_chunks cs"
| "streamed_chunks (Stream (Buffer b) # cs) = b # streamed_chunks cs"
| "streamed_chunks (_ # cs) = streamed_chunks cs"

text \<open>A later world extends an earlier one when console and call log have only grown.\<close>

definition extends :: "world \<Rightarrow> world \<Rightarrow> bool" where
  "extends w w' = (prefix (console w) (console w') \<and> prefix (calls w) (calls w'))"

text \<open>The statements of \<^verbatim>\<open>main\<close> that follow the listing (l.242-277), named for the proofs;
  \<open>main\<close> above is not defined through them.\<close>

definition main_scenarios :: "sdk \<Rightarrow> demo \<Rightarrow> voice_descriptor list \<Rightarrow> unit io" where
  "main_scenarios s demo voices =
        then_io (py_print (MsgDemoHeading 2))
       (then_io (basic_tts s demo BASIC_TEXT ''Rachel'' ''demo_basic.mp3'')
       (then_io (case voices of
                   [] \<Rightarrow> return_io ()
                 | first_voice # _ \<Rightarrow>
                     then_io (py_print (MsgDemoHeading 3))
                             (advanced_tts_with_settings s demo ADVANCED_TEXT
                                (vd_voice_id first_voice) 0.7 0.8 0.2 True ''demo_advanced.mp3''))
       (then_io (py_print (MsgDemoHeading 4))
       (then_io (streaming_tts s demo STREAMING_TEXT ''Rachel'')
       (then_io (py_print (MsgDemoHeading 5))
       (then_io (demo_multiple_voices s demo COMPARE_TEXT)
       (then_io (py_print MsgAllDone)
                (py_print MsgCheckFiles))))))))"

text \<open>The statements of \<^verbatim>\<open>main\<close> that follow the basic scenario (l.250-277).\<close>

definition main_rest :: "sdk \<Rightarrow> demo \<Rightarrow> voice_descriptor list \<Rightarrow> unit io" where
  "main_rest s demo voices =
        then_io (case voices of
                   [] \<Rightarrow> return_io ()
                 | first_voice # _ \<Rightarrow>
                     then_io (py_print (MsgDemoHeading 3))
                             (advanced_tts_with_settings s demo ADVANCED_TEXT
                                (vd_voice_id first_voice) 0.7 0.8 0.2 True ''demo_advanced.mp3''))
       (then_io (py_print (MsgDemoHeading 4))
       (then_io (streaming_tts s demo STREAMING_TEXT ''Rachel'')
       (then_io (py_print (MsgDemoHeading 5))
       (then_io (demo_multiple_voices s demo COMPARE_TEXT)
       (then_io (py_print MsgAllDone)
                (py_print MsgCheckFiles))))))"

section \<open>Test doubles\<close>

definition empty_world :: world where
  "empty_world = \<lparr>environ = (\<lambda>_. None), files = (\<lambda>_. None), console = [], calls = []\<rparr>"

definition key_world :: world where
  "key_world =
     empty_world\<lparr>environ := (\<lambda>v. if v = API_KEY_VAR then Some ''test-key'' else None)\<rparr>"

definition rachel :: voice_descriptor where
  "rachel = \<lparr>vd_voice_id = ''v1'', vd_name = ''Rachel'', vd_category = ''premade'',
     vd_description = None\<rparr>"

definition drew :: voice_descriptor where
  "drew = \<lparr>vd_voice_id = ''v2'', vd_name = ''Drew'', vd_category = ''premade'',
     vd_description = Some ''news''\<rparr>"

text \<open>A listing entry whose name starts with a capital E with acute accent.\<close>

definition elodie :: voice_descriptor where
  "elodie = \<lparr>vd_voice_id = ''v3'', vd_name = CHR 0xC9 # ''lodie'', vd_category = ''cloned'',
     vd_description = None\<rparr>"

text \<open>A lowercasing that also folds the accented capitals of Latin-1.\<close>

definition latin1_lower_char :: "char \<Rightarrow> char" where
  "latin1_lower_char c =
     (let n = (of_char c :: nat)
      in if (65 \<le> n \<and> n \<le> 90) \<or> (192 \<le> n \<and> n \<le> 214) \<or> (216 \<le> n \<and> n \<le> 222)
         then char_of (n + 32) else c)"

definition latin1_lower :: "string \<Rightarrow> string" where
  "latin1_lower xs = map latin1_lower_char xs"

text \<open>\<open>fake_sdk\<close>: every collaborator succeeds, and \<^verbatim>\<open>Voice\<close> is built without an identifier
  too. \<open>strict_sdk\<close>: the same, but \<^verbatim>\<open>Voice\<close> without an identifier raises, as the released
  SDK does (its validation error is a \<^verbatim>\<open>ValueError\<close>).\<close>

definition fake_sdk :: sdk where
  "fake_sdk = \<lparr>voices_get_all = (\<lambda>_ _. Inr [drew, rachel]),
     generate = (\<lambda>_ _ _. Inr (Buffer ''RIFF...'')),
     save_error = (\<lambda>_ _ _. None),
     play_error = (\<lambda>_ _. None),
     stream_error = (\<lambda>_ _. None),
     voice_without_id = (\<lambda>_. None),
     str_lower = latin1_lower\<rparr>"

definition VOICE_ID_REQUIRED :: exn where
  "VOICE_ID_REQUIRED = ValueError ''voice_id: Field required''"

definition strict_sdk :: sdk where
  "strict_sdk = fake_sdk\<lparr>voice_without_id := (\<lambda>_. Some VOICE_ID_REQUIRED)\<rparr>"

definition failing_sdk :: sdk where
  "failing_sdk = fake_sdk\<lparr>generate := (\<lambda>_ _ _. Inl (OtherError ''remote failure''))\<rparr>"



text \<open>Only the synthesis for Rachel fails.\<close>

definition rachel_fails_sdk :: sdk where
  "rachel_fails_sdk = fake_sdk\<lparr>generate := (\<lambda>_ _ r.
     if req_voice r = VoiceObj (voice_by_name ''Rachel'')
     then Inl (OtherError ''voice not found'') else Inr (Buffer ''RIFF...''))\<rparr>"

text \<open>Every write of a file fails.\<close>

definition save_fails_sdk :: sdk where
  "save_fails_sdk = fake_sdk\<lparr>save_error := (\<lambda>_ _ _. Some (OtherError ''disk full''))\<rparr>"

definition elodie_sdk :: sdk where
  "elodie_sdk = fake_sdk\<lparr>voices_get_all := (\<lambda>_ _. Inr [drew, elodie])\<rparr>"

definition test_demo :: demo where
  "test_demo = \<lparr>api_key = ''test-key'', client = ElevenLabs ''test-key''\<rparr>"

section \<open>Sequencing, totality and growth\<close>

lemmas io_defs = return_io_def raise_io_def bind_io_def then_io_def try_except_def py_print_def
  getenv_def getenv_default_def new_client_def client_voices_get_all_def client_generate_def
  save_def play_def stream_def record_call_def new_voice_def

lemma generate_requests_append:
  "generate_requests (xs @ ys) = generate_requests xs @ generate_requests ys"
  by (induction xs rule: generate_requests.induct) simp_all

lemma saved_paths_append: "saved_paths (xs @ ys) = saved_paths xs @ saved_paths ys"
  by (induction xs rule: saved_paths.induct) simp_all

lemma then_io_total: "snd (m w) = Inr () \<Longrightarrow> then_io m n w = n (fst (m w))"
  by (cases "m w") (auto simp: then_io_def bind_io_def)

lemma py_print_total: "snd (py_print m w) = Inr ()"
  by (simp add: py_print_def)

lemma try_except_total:
  assumes "\<And>e w. snd (h e w) = Inr ()"
  shows "snd (try_except m h w) = Inr ()"
  using assms by (simp add: try_except_def split: prod.splits sum.splits)

lemma then_total:
  assumes "snd (m w) = Inr ()" "\<And>w. snd (n w) = Inr ()"
  shows "snd (then_io m n w) = Inr ()"
  using assms by (simp add: then_io_total)

lemma for_each_total:
  assumes "\<And>x w. snd (body x w) = Inr ()"
  shows "snd (for_each body xs w) = Inr ()"
  using assms by (induction xs arbitrary: w) (simp_all add: return_io_def then_io_total)

lemma basic_tts_total: "snd (basic_tts s d t v out w) = Inr ()"
  unfolding basic_tts_def
  by (intro then_total try_except_total py_print_total)

lemma advanced_total: "snd (advanced_tts_with_settings s d t v a b c e out w) = Inr ()"
  unfolding advanced_tts_with_settings_def
  by (intro then_total try_except_total py_print_total)

lemma streaming_total: "snd (streaming_tts s d t v w) = Inr ()"
  unfolding streaming_tts_def
  by (intro then_total try_except_total py_print_total)

lemma demo_voice_body_total: "snd (demo_voice_body s d t p w) = Inr ()"
  unfolding demo_voice_body_def
  by (cases p) (simp, intro then_total try_except_total py_print_total)

lemma demo_multiple_voices_total: "snd (demo_multiple_voices s d t w) = Inr ()"
  unfolding demo_multiple_voices_def
  by (intro then_total for_each_total py_print_total demo_voice_body_total)


lemma extends_refl: "extends w w"
  by (simp add: extends_def)

lemma extends_trans: "extends w w' \<Longrightarrow> extends w' w'' \<Longrightarrow> extends w w''"
  by (auto simp: extends_def)

lemma extends_bind:
  assumes "\<And>w. extends w (fst (m w))" "\<And>x w. extends w (fst (f x w))"
  shows "extends w (fst (bind_io m f w))"
proof (cases "m w")
  case (Pair w' r)
  with assms(1)[of w] have 1: "extends w w'" by simp
  show ?thesis
  proof (cases r)
    case (Inl e)
    with Pair 1 show ?thesis by (simp add: bind_io_def)
  next
    case (Inr x)
    with Pair have "bind_io m f w = f x w'" by (simp add: bind_io_def)
    with 1 assms(2)[of w' x] show ?thesis by (auto intro: extends_trans)
  qed
qed

lemma extends_then:
  assumes "\<And>w. extends w (fst (m w))" "\<And>w. extends w (fst (n w))"
  shows "extends w (fst (then_io m n w))"
  unfolding then_io_def using assms by (intro extends_bind)

lemma extends_try:
  assumes "\<And>w. extends w (fst (m w))" "\<And>e w. extends w (fst (h e w))"
  shows "extends w (fst (try_except m h w))"
proof (cases "m w")
  case (Pair w' r)
  with assms(1)[of w] have 1: "extends w w'" by simp
  show ?thesis
  proof (cases r)
    case (Inl e)
    with Pair have "try_except m h w = h e w'" by (simp add: try_except_def)
    with 1 assms(2)[of w' e] show ?thesis by (auto intro: extends_trans)
  next
    case (Inr x)
    with Pair 1 show ?thesis by (simp add: try_except_def)
  qed
qed

lemma extends_for_each:
  assumes "\<And>x w. extends w (fst (body x w))"
  shows "extends w (fst (for_each body xs w))"
proof (induction xs arbitrary: w)
  case Nil
  show ?case by (simp add: return_io_def extends_refl)
next
  case (Cons x xs)
  show ?case by (simp, intro extends_then assms Cons.IH)
qed

lemma extends_prim:
  "extends w (fst (py_print m w))"
  "extends w (fst (return_io x w))"
  "extends w (fst (client_generate s c r w))"
  "extends w (fst (save s a p w))"
  "extends w (fst (play s a w))"
  "extends w (fst (stream s a w))"
  "extends w (fst (new_voice s v w))"
  by (simp_all add: extends_def io_defs split: option.splits)

lemmas extends_intros = extends_then extends_bind extends_try extends_for_each extends_prim

lemma basic_tts_extends: "extends w (fst (basic_tts s d t v out w))"
  unfolding basic_tts_def by (intro extends_intros)

lemma advanced_extends: "extends w (fst (advanced_tts_with_settings s d t v a b c e out w))"
  unfolding advanced_tts_with_settings_def by (intro extends_intros)

lemma streaming_extends: "extends w (fst (streaming_tts s d t v w))"
  unfolding streaming_tts_def by (intro extends_intros)

lemma demo_voice_body_extends: "extends w (fst (demo_voice_body s d t p w))"
  unfolding demo_voice_body_def by (cases p) (simp, intro extends_intros)

lemma demo_multiple_voices_extends: "extends w (fst (demo_multiple_voices s d t w))"
  unfolding demo_multiple_voices_def by (intro extends_intros demo_voice_body_extends)

section \<open>The synthesis requests of each operation\<close>

lemma voice_by_name_id [simp]: "voice_id (voice_by_name n) = None"
  by (simp add: voice_by_name_def)

lemma basic_tts_requests:
  "generate_requests (calls (fst (basic_tts s d t v out w))) =
     generate_requests (calls w) @
       (case voice_without_id s (voice_by_name v) of
          None \<Rightarrow> [\<lparr>req_text = t, req_voice = VoiceObj (voice_by_name v),
                    req_model = ''eleven_monolingual_v1'', req_stream = None\<rparr>]
        | Some e \<Rightarrow> [])"
  by (auto simp: basic_tts_def io_defs generate_requests_append
      split: prod.splits sum.splits option.splits)

lemma advanced_requests:
  "generate_requests (calls (fst (advanced_tts_with_settings s d t vid stab sim sty boost out w))) =
     generate_requests (calls w) @ [\<lparr>req_text = t,
       req_voice = VoiceObj \<lparr>voice_id = Some vid, name = None,
         settings = Some \<lparr>stability = stab, similarity_boost = sim, style = sty,
           use_speaker_boost = boost\<rparr>\<rparr>,
       req_model = ''eleven_multilingual_v2'', req_stream = None\<rparr>]"
  by (auto simp: advanced_tts_with_settings_def io_defs generate_requests_append
      split: prod.splits sum.splits option.splits)

lemma streaming_requests:
  "generate_requests (calls (fst (streaming_tts s d t v w))) =
     generate_requests (calls w) @
       (case voice_without_id s (voice_by_name v) of
          None \<Rightarrow> [\<lparr>req_text = t, req_voice = VoiceObj (voice_by_name v),
                    req_model = ''eleven_turbo_v2'', req_stream = Some True\<rparr>]
        | Some e \<Rightarrow> [])"
  by (auto simp: streaming_tts_def io_defs generate_requests_append
      split: prod.splits sum.splits option.splits)

lemma demo_voice_body_requests:
  "generate_requests (calls (fst (demo_voice_body s d t (i, n) w))) =
     generate_requests (calls w) @
       (case voice_without_id s (voice_by_name n) of
          None \<Rightarrow> [\<lparr>req_text = t, req_voice = VoiceObj (voice_by_name n),
                    req_model = ''eleven_monolingual_v1'', req_stream = None\<rparr>]
        | Some e \<Rightarrow> [])"
  by (auto simp: demo_voice_body_def io_defs generate_requests_append
      split: prod.splits sum.splits option.splits)

lemma calls_py_print: "calls (fst (py_print m w)) = calls w"
  by (simp add: py_print_def)

lemma played_append: "played (xs @ ys) = played xs @ played ys"
  by (induction xs rule: played.induct) simp_all

lemma streamed_chunks_append:
  "streamed_chunks (xs @ ys) = streamed_chunks xs @ streamed_chunks ys"
  by (induction xs rule: streamed_chunks.induct) simp_all

section \<open>The loop over the voices\<close>

lemma demo_enumerate: "enumerate 1 demo_voices =
  [(1, ''Rachel''), (2, ''Drew''), (3, ''Clyde''), (4, ''Paul'')]"
  by code_simp

lemma demo_multiple_voices_unfold:
  "fst (demo_multiple_voices s d t w) =
     fst (demo_voice_body s d t (4, ''Paul'')
       (fst (demo_voice_body s d t (3, ''Clyde'')
         (fst (demo_voice_body s d t (2, ''Drew'')
           (fst (demo_voice_body s d t (1, ''Rachel'')
             (fst (py_print (MsgMultiVoice t) w)))))))))"
proof -
  have "fst (demo_multiple_voices s d t w) =
      fst (for_each (demo_voice_body s d t) (enumerate 1 demo_voices)
        (fst (py_print (MsgMultiVoice t) w)))"
    by (simp add: demo_multiple_voices_def then_io_total [OF py_print_total])
  also have "\<dots> = fst (demo_voice_body s d t (4, ''Paul'')
       (fst (demo_voice_body s d t (3, ''Clyde'')
         (fst (demo_voice_body s d t (2, ''Drew'')
           (fst (demo_voice_body s d t (1, ''Rachel'')
             (fst (py_print (MsgMultiVoice t) w)))))))))"
    unfolding demo_enumerate
    by (simp add: then_io_total demo_voice_body_total return_io_def del: One_nat_def)
  finally show ?thesis .
qed

lemma demo_multiple_voices_requests:
  "generate_requests (calls (fst (demo_multiple_voices s d t w))) =
     generate_requests (calls w) @
       concat (map (\<lambda>n. case voice_without_id s (voice_by_name n) of
                None \<Rightarrow> [\<lparr>req_text = t, req_voice = VoiceObj (voice_by_name n),
                          req_model = ''eleven_monolingual_v1'', req_stream = None\<rparr>]
              | Some e \<Rightarrow> [])
         [''Rachel'', ''Drew'', ''Clyde'', ''Paul''])"
  by (simp add: demo_multiple_voices_unfold demo_voice_body_requests calls_py_print
      del: One_nat_def)

lemma demo_voice_body_rejected:
  assumes "voice_without_id s (voice_by_name n) = Some e"
  shows "demo_voice_body s d t (i, n) w =
     (w\<lparr>console := console w @ [MsgVoiceIndex i n, MsgVoiceFailed n e]\<rparr>, Inr ())"
  using assms by (simp add: demo_voice_body_def io_defs)

lemma demo_voice_body_failed:
  assumes "voice_without_id s (voice_by_name n) = None"
    and "generate s (calls w) (client d)
       \<lparr>req_text = t, req_voice = VoiceObj (voice_by_name n),
        req_model = ''eleven_monolingual_v1'', req_stream = None\<rparr> = Inl e"
  shows "demo_voice_body s d t (i, n) w =
     (w\<lparr>console := console w @ [MsgVoiceIndex i n, MsgVoiceFailed n e],
        calls := calls w @ [Generate (client d)
          \<lparr>req_text = t, req_voice = VoiceObj (voice_by_name n),
           req_model = ''eleven_monolingual_v1'', req_stream = None\<rparr>]\<rparr>, Inr ())"
  using assms by (simp add: demo_voice_body_def io_defs)

lemma demo_voice_body_saved:
  assumes "voice_without_id s (voice_by_name n) = None"
    and "generate s (calls w) (client d)
       \<lparr>req_text = t, req_voice = VoiceObj (voice_by_name n),
        req_model = ''eleven_monolingual_v1'', req_stream = None\<rparr> = Inr a"
  shows "calls (fst (demo_voice_body s d t (i, n) w)) = calls w @
       [Generate (client d)
          \<lparr>req_text = t, req_voice = VoiceObj (voice_by_name n),
           req_model = ''eleven_monolingual_v1'', req_stream = None\<rparr>,
        Save a (demo_output_file s i n)]"
    and "save_error s (calls w @ [Generate (client d)
          \<lparr>req_text = t, req_voice = VoiceObj (voice_by_name n),
           req_model = ''eleven_monolingual_v1'', req_stream = None\<rparr>])
          a (demo_output_file s i n) = None \<Longrightarrow>
       files (fst (demo_voice_body s d t (i, n) w)) =
         (files w)(demo_output_file s i n \<mapsto> audio_bytes a)"
  using assms by (simp_all add: demo_voice_body_def io_defs split: option.splits)

lemma lowers_ascii_names:
  assumes "lowers_ascii f"
  shows "f ''Rachel'' = ''rachel''" "f ''Drew'' = ''drew''" "f ''Clyde'' = ''clyde''"
    "f ''Paul'' = ''paul''" "f ''rachel'' = ''rachel''"
proof -
  have a: "\<forall>c \<in> set ''Rachel''. (of_char c :: nat) < 128" "\<forall>c \<in> set ''Drew''. (of_char c :: nat) < 128"
    "\<forall>c \<in> set ''Clyde''. (of_char c :: nat) < 128" "\<forall>c \<in> set ''Paul''. (of_char c :: nat) < 128"
    "\<forall>c \<in> set ''rachel''. (of_char c :: nat) < 128"
    by simp_all
  have b: "ascii_lower ''Rachel'' = ''rachel''" "ascii_lower ''Drew'' = ''drew''"
    "ascii_lower ''Clyde'' = ''clyde''" "ascii_lower ''Paul'' = ''paul''"
    "ascii_lower ''rachel'' = ''rachel''"
    by code_simp+
  show "f ''Rachel'' = ''rachel''" "f ''Drew'' = ''drew''" "f ''Clyde'' = ''clyde''"
    "f ''Paul'' = ''paul''" "f ''rachel'' = ''rachel''"
    using assms a b unfolding lowers_ascii_def by metis+
qed

lemma str_nat_digits: "str_nat 1 = ''1''" "str_nat 2 = ''2''" "str_nat 3 = ''3''" "str_nat 4 = ''4''"
  by code_simp+

lemma demo_paths:
  assumes "lowers_ascii (str_lower s)"
  shows "demo_output_file s 1 ''Rachel'' = ''demo_voice_1_rachel.mp3''"
    "demo_output_file s 2 ''Drew'' = ''demo_voice_2_drew.mp3''"
    "demo_output_file s 3 ''Clyde'' = ''demo_voice_3_clyde.mp3''"
    "demo_output_file s 4 ''Paul'' = ''demo_voice_4_paul.mp3''"
  by (simp_all add: demo_output_file_def str_nat_digits lowers_ascii_names [OF assms]
      del: One_nat_def)

lemma latin1_lowers_ascii: "lowers_ascii latin1_lower"
proof -
  have "(of_char c :: nat) < 128 \<Longrightarrow> latin1_lower_char c = ascii_lower_char c" for c
    by (simp add: latin1_lower_char_def ascii_lower_char_def Let_def)
  then show ?thesis
    by (simp add: lowers_ascii_def latin1_lower_def ascii_lower_def)
qed

section \<open>The run of main\<close>

lemma console_py_print: "console (fst (py_print m w)) = console w @ [m]"
  by (simp add: py_print_def)

lemma environ_py_print: "environ (fst (py_print m w)) = environ w"
  by (simp add: py_print_def)

lemma calls_record_call: "calls (record_call c w) = calls w @ [c]"
  by (simp add: record_call_def)

lemma console_record_call: "console (record_call c w) = console w"
  by (simp add: record_call_def)

lemma extends_console: "extends w w' \<Longrightarrow> \<exists>a. console w' = console w @ a"
  by (auto simp: extends_def prefix_def)

lemma init_ok:
  "environ w API_KEY_VAR = Some k \<Longrightarrow> k \<noteq> [] \<Longrightarrow>
     ElevenLabsDemo_init None w =
       (record_call (NewClient k) w, Inr \<lparr>api_key = k, client = ElevenLabs k\<rparr>)"
  by (simp add: ElevenLabsDemo_init_def return_io_def raise_io_def bind_io_def getenv_def
      new_client_def py_or_def)

lemma print_voice_total: "snd (print_voice v w) = Inr ()"
  unfolding print_voice_def by (intro then_total py_print_total)

lemma print_voice_calls: "calls (fst (print_voice v w)) = calls w"
  by (simp add: print_voice_def then_io_total py_print_total calls_py_print)

lemma for_each_calls:
  assumes "\<And>x w. snd (body x w) = Inr ()" "\<And>x w. calls (fst (body x w)) = calls w"
  shows "calls (fst (for_each body xs w)) = calls w"
  by (induction xs arbitrary: w) (simp_all add: return_io_def then_io_total assms)

lemma list_voices_ok:
  assumes "voices_get_all s (calls w) (client d) = Inr vs"
  shows "snd (list_voices s d w) = Inr vs"
    and "calls (fst (list_voices s d w)) = calls w @ [GetAll (client d)]"
proof -
  let ?w1 = "fst (py_print MsgFetchingVoices w)"
  let ?w2 = "record_call (GetAll (client d)) ?w1"
  let ?w4 = "fst (py_print (Line (replicate 50 (CHR ''-'')))
     (fst (py_print (MsgFoundVoices (length vs)) ?w2)))"
  have get: "client_voices_get_all s (client d) ?w1 = (?w2, Inr vs)"
    using assms by (simp add: client_voices_get_all_def calls_py_print)
  have eq: "list_voices s d w = (fst (for_each print_voice vs ?w4), Inr vs)"
    by (simp add: list_voices_def then_io_total py_print_total bind_io_def get
        for_each_total print_voice_total return_io_def)
  show "snd (list_voices s d w) = Inr vs"
    by (simp add: eq)
  show "calls (fst (list_voices s d w)) = calls w @ [GetAll (client d)]"
    by (simp add: eq for_each_calls print_voice_total print_voice_calls calls_py_print
        calls_record_call)
qed

lemma basic_tts_rejected:
  assumes "voice_without_id s (voice_by_name v) = Some e"
  shows "basic_tts s d t v out w =
     (w\<lparr>console := console w @ [MsgBasicTts (take 50 t), MsgUsingVoice v, MsgError e]\<rparr>,
      Inr ())"
  using assms by (simp add: basic_tts_def io_defs)

lemma basic_tts_failure:
  assumes "voice_without_id s (voice_by_name v) = None"
    and "generate s (calls w) (client d)
     \<lparr>req_text = t, req_voice = VoiceObj (voice_by_name v),
      req_model = ''eleven_monolingual_v1'', req_stream = None\<rparr> = Inl e"
  shows "basic_tts s d t v out w =
     (w\<lparr>console := console w @ [MsgBasicTts (take 50 t), MsgUsingVoice v, MsgError e],
        calls := calls w @ [Generate (client d)
          \<lparr>req_text = t, req_voice = VoiceObj (voice_by_name v),
           req_model = ''eleven_monolingual_v1'', req_stream = None\<rparr>]\<rparr>, Inr ())"
  using assms by (simp add: basic_tts_def io_defs)

lemma extends_prim2:
  "extends w (fst (client_voices_get_all s c w))"
  "extends w (fst (new_client k w))"
  "extends w (record_call x w)"
  by (simp_all add: extends_def io_defs)

lemma print_voice_extends: "extends w (fst (print_voice v w))"
  unfolding print_voice_def by (intro extends_intros)

lemma list_voices_extends: "extends w (fst (list_voices s d w))"
  unfolding list_voices_def by (intro extends_intros extends_prim2 print_voice_extends)

lemma advanced_block_total:
  "snd ((case vs of [] \<Rightarrow> return_io ()
         | first_voice # x \<Rightarrow> then_io (py_print (MsgDemoHeading 3))
             (advanced_tts_with_settings s d ADVANCED_TEXT (vd_voice_id first_voice)
                0.7 0.8 0.2 True ''demo_advanced.mp3'')) w) = Inr ()"
  by (cases vs) (simp_all add: return_io_def then_io_total py_print_total advanced_total)

lemma advanced_block_extends:
  "extends w (fst ((case vs of [] \<Rightarrow> return_io ()
         | first_voice # x \<Rightarrow> then_io (py_print (MsgDemoHeading 3))
             (advanced_tts_with_settings s d ADVANCED_TEXT (vd_voice_id first_voice)
                0.7 0.8 0.2 True ''demo_advanced.mp3'')) w))"
  by (cases vs) (simp_all add: extends_intros advanced_extends)

lemma main_rest_total: "snd (main_rest s d vs w) = Inr ()"
  unfolding main_rest_def
  by (intro then_total py_print_total streaming_total demo_multiple_voices_total
      advanced_block_total)

text \<open>What the rest of \<open>main\<close> prints: whatever the tuned scenario prints, the heading of
  the streaming scenario, whatever that prints, the heading of the comparison, whatever
  that prints, and the two completion lines.\<close>

lemma main_rest_console:
  "\<exists>a b c. console (fst (main_rest s d vs w)) =
     console w @ a @ [MsgDemoHeading 4] @ b @ [MsgDemoHeading 5] @ c @
       [MsgAllDone, MsgCheckFiles]"
proof -
  let ?A = "case vs of [] \<Rightarrow> return_io ()
         | first_voice # x \<Rightarrow> then_io (py_print (MsgDemoHeading 3))
             (advanced_tts_with_settings s d ADVANCED_TEXT (vd_voice_id first_voice)
                0.7 0.8 0.2 True ''demo_advanced.mp3'')"
  let ?w1 = "fst (?A w)"
  let ?w2 = "fst (py_print (MsgDemoHeading 4) ?w1)"
  let ?w3 = "fst (streaming_tts s d STREAMING_TEXT ''Rachel'' ?w2)"
  let ?w4 = "fst (py_print (MsgDemoHeading 5) ?w3)"
  let ?w5 = "fst (demo_multiple_voices s d COMPARE_TEXT ?w4)"
  have eq: "main_rest s d vs w = py_print MsgCheckFiles (fst (py_print MsgAllDone ?w5))"
    by (simp add: main_rest_def then_io_total py_print_total streaming_total
        demo_multiple_voices_total advanced_block_total)
  obtain a where a: "console ?w1 = console w @ a"
    using extends_console [OF advanced_block_extends] by blast
  obtain b where b: "console ?w3 = console ?w2 @ b"
    using extends_console [OF streaming_extends] by blast
  obtain c where c: "console ?w5 = console ?w4 @ c"
    using extends_console [OF demo_multiple_voices_extends] by blast
  have "console (fst (main_rest s d vs w)) =
     console w @ a @ [MsgDemoHeading 4] @ b @ [MsgDemoHeading 5] @ c @
       [MsgAllDone, MsgCheckFiles]"
    by (simp add: eq console_py_print a b c)
  then show ?thesis by blast
qed

lemma main_scenarios_eq:
  "main_scenarios s d vs w = main_rest s d vs
     (fst (basic_tts s d BASIC_TEXT ''Rachel'' ''demo_basic.mp3''
        (fst (py_print (MsgDemoHeading 2) w))))"
  by (simp add: main_scenarios_def main_rest_def then_io_total py_print_total basic_tts_total)

lemma main_scenarios_total: "snd (main_scenarios s d vs w) = Inr ()"
  by (simp add: main_scenarios_eq main_rest_total)

lemma main_unfold:
  assumes env: "environ w API_KEY_VAR = Some k" "k \<noteq> []"
    and listing: "voices_get_all s (calls w @ [NewClient k]) (ElevenLabs k) = Inr vs"
  shows "\<exists>w2 a. calls w2 = calls w @ [NewClient k, GetAll (ElevenLabs k)]
     \<and> console w2 = console w @ a
     \<and> main s w = main_scenarios s \<lparr>api_key = k, client = ElevenLabs k\<rparr> vs w2"
proof -
  let ?d = "\<lparr>api_key = k, client = ElevenLabs k\<rparr>"
  let ?w0 = "fst (py_print (Line (replicate 40 (CHR ''=''))) (fst (py_print MsgBanner w)))"
  let ?w1 = "fst (py_print (MsgDemoHeading 1) (record_call (NewClient k) ?w0))"
  obtain w2 r where w2: "list_voices s ?d ?w1 = (w2, r)"
    by (cases "list_voices s ?d ?w1")
  have init: "ElevenLabsDemo_init None ?w0 = (record_call (NewClient k) ?w0, Inr ?d)"
    using env by (intro init_ok) (simp_all add: environ_py_print)
  have c1: "calls ?w1 = calls w @ [NewClient k]"
    by (simp add: calls_py_print calls_record_call)
  have "snd (list_voices s ?d ?w1) = Inr vs" "calls (fst (list_voices s ?d ?w1)) = calls ?w1 @ [GetAll (client ?d)]"
    using list_voices_ok [of s ?w1 ?d vs] listing c1 by simp_all
  with w2 have lv: "list_voices s ?d ?w1 = (w2, Inr vs)" and c2: "calls w2 = calls ?w1 @ [GetAll (ElevenLabs k)]"
    by simp_all
  obtain w' where tot: "main_scenarios s ?d vs w2 = (w', Inr ())"
    using main_scenarios_total [of s ?d vs w2] by (cases "main_scenarios s ?d vs w2") auto
  have body: "bind_io (ElevenLabsDemo_init None) (\<lambda>demo.
        then_io (py_print (MsgDemoHeading 1))
       (bind_io (list_voices s demo) (\<lambda>voices. main_scenarios s demo voices))) ?w0 = (w', Inr ())"
    by (simp add: bind_io_def init then_io_total py_print_total lv tot del: One_nat_def)
  have "main s w = try_except
       (bind_io (ElevenLabsDemo_init None) (\<lambda>demo.
        then_io (py_print (MsgDemoHeading 1))
       (bind_io (list_voices s demo) (\<lambda>voices. main_scenarios s demo voices))))
       (\<lambda>e. case e of
               ValueError _ \<Rightarrow>
                 then_io (py_print (MsgConfigError e))
                (then_io (py_print MsgSetupHeading)
                (then_io (py_print (MsgSetupStep 1))
                (then_io (py_print (MsgSetupStep 2))
                         (py_print (MsgSetupStep 3)))))
             | OtherError _ \<Rightarrow> py_print (MsgUnexpected e)) ?w0"
    unfolding main_def main_scenarios_def
    by (simp only: then_io_total [of "py_print m" for m, OF py_print_total])
  also have "\<dots> = main_scenarios s ?d vs w2"
    by (simp only: try_except_def body tot prod.case sum.case)
  finally have m: "main s w = main_scenarios s ?d vs w2" .
  have e1: "extends w ?w0"
    by (rule extends_trans [OF extends_prim(1) extends_prim(1)])
  have e2: "extends ?w0 ?w1"
    by (rule extends_trans [OF extends_prim2(3) extends_prim(1)])
  have e3: "extends ?w1 w2"
    using list_voices_extends [of ?w1 s ?d] w2 by simp
  have "extends w w2"
    using e1 e2 e3 by (blast intro: extends_trans)
  then obtain a where "console w2 = console w @ a"
    using extends_console by blast
  with m c2 c1 show ?thesis by auto
qed


lemma main_ok:
  assumes env: "environ w API_KEY_VAR = Some k" "k \<noteq> []"
    and listing: "voices_get_all s (calls w @ [NewClient k]) (ElevenLabs k) = Inr vs"
  shows "snd (main s w) = Inr ()"
    and "\<exists>pre a b c. console (fst (main s w)) =
        console w @ pre @ [MsgDemoHeading 2] @ a @ [MsgDemoHeading 4] @ b @
          [MsgDemoHeading 5] @ c @ [MsgAllDone, MsgCheckFiles]"
    and "voice_without_id s (voice_by_name ''Rachel'') = Some e \<Longrightarrow>
      \<exists>pre a b c. console (fst (main s w)) =
        console w @ pre @
          [MsgDemoHeading 2, MsgBasicTts (take 50 BASIC_TEXT), MsgUsingVoice ''Rachel'',
           MsgError e] @ a @ [MsgDemoHeading 4] @ b @ [MsgDemoHeading 5] @ c @
          [MsgAllDone, MsgCheckFiles]"
    and "voice_without_id s (voice_by_name ''Rachel'') = None \<Longrightarrow>
      generate s (calls w @ [NewClient k, GetAll (ElevenLabs k)]) (ElevenLabs k)
        \<lparr>req_text = BASIC_TEXT, req_voice = VoiceObj (voice_by_name ''Rachel''),
         req_model = ''eleven_monolingual_v1'', req_stream = None\<rparr> = Inl e \<Longrightarrow>
      \<exists>pre a b c. console (fst (main s w)) =
        console w @ pre @
          [MsgDemoHeading 2, MsgBasicTts (take 50 BASIC_TEXT), MsgUsingVoice ''Rachel'',
           MsgError e] @ a @ [MsgDemoHeading 4] @ b @ [MsgDemoHeading 5] @ c @
          [MsgAllDone, MsgCheckFiles]"
proof -
  let ?d = "\<lparr>api_key = k, client = ElevenLabs k\<rparr>"
  obtain w2 p where w2: "calls w2 = calls w @ [NewClient k, GetAll (ElevenLabs k)]"
    "console w2 = console w @ p" "main s w = main_scenarios s ?d vs w2"
    using main_unfold [OF assms] by blast
  let ?w3 = "fst (py_print (MsgDemoHeading 2) w2)"
  let ?w4 = "fst (basic_tts s ?d BASIC_TEXT ''Rachel'' ''demo_basic.mp3'' ?w3)"
  have m: "main s w = main_rest s ?d vs ?w4"
    by (simp add: w2(3) main_scenarios_eq)
  show "snd (main s w) = Inr ()"
    by (simp add: m main_rest_total)
  obtain a b c where rest: "console (fst (main s w)) =
      console ?w4 @ a @ [MsgDemoHeading 4] @ b @ [MsgDemoHeading 5] @ c @
        [MsgAllDone, MsgCheckFiles]"
    using main_rest_console [of s ?d vs ?w4] m by auto
  obtain x where x: "console ?w4 = console ?w3 @ x"
    using extends_console [OF basic_tts_extends] by blast
  have c3: "console ?w3 = console w @ p @ [MsgDemoHeading 2]"
    by (simp add: console_py_print w2(2))
  have "console (fst (main s w)) =
      console w @ p @ [MsgDemoHeading 2] @ (x @ a) @ [MsgDemoHeading 4] @ b @
        [MsgDemoHeading 5] @ c @ [MsgAllDone, MsgCheckFiles]"
    by (simp add: rest x c3)
  then show "\<exists>pre a b c. console (fst (main s w)) =
        console w @ pre @ [MsgDemoHeading 2] @ a @ [MsgDemoHeading 4] @ b @
          [MsgDemoHeading 5] @ c @ [MsgAllDone, MsgCheckFiles]"
    by blast
  have shape: "\<exists>pre a b c. console (fst (main s w)) =
        console w @ pre @
          [MsgDemoHeading 2, MsgBasicTts (take 50 BASIC_TEXT), MsgUsingVoice ''Rachel'',
           MsgError e] @ a @ [MsgDemoHeading 4] @ b @ [MsgDemoHeading 5] @ c @
          [MsgAllDone, MsgCheckFiles]"
    if "console ?w4 = console ?w3 @
        [MsgBasicTts (take 50 BASIC_TEXT), MsgUsingVoice ''Rachel'', MsgError e]"
  proof -
    have "console (fst (main s w)) =
        console w @ p @
          [MsgDemoHeading 2, MsgBasicTts (take 50 BASIC_TEXT), MsgUsingVoice ''Rachel'',
           MsgError e] @ a @ [MsgDemoHeading 4] @ b @ [MsgDemoHeading 5] @ c @
          [MsgAllDone, MsgCheckFiles]"
      by (simp add: rest that c3)
    then show ?thesis by blast
  qed
  {
    assume "voice_without_id s (voice_by_name ''Rachel'') = Some e"
    from basic_tts_rejected [OF this, of ?d BASIC_TEXT "''demo_basic.mp3''" ?w3]
    have "console ?w4 = console ?w3 @
        [MsgBasicTts (take 50 BASIC_TEXT), MsgUsingVoice ''Rachel'', MsgError e]"
      by simp
    then show "\<exists>pre a b c. console (fst (main s w)) =
        console w @ pre @
          [MsgDemoHeading 2, MsgBasicTts (take 50 BASIC_TEXT), MsgUsingVoice ''Rachel'',
           MsgError e] @ a @ [MsgDemoHeading 4] @ b @ [MsgDemoHeading 5] @ c @
          [MsgAllDone, MsgCheckFiles]"
      by (rule shape)
  }
  {
    assume v: "voice_without_id s (voice_by_name ''Rachel'') = None"
      and "generate s (calls w @ [NewClient k, GetAll (ElevenLabs k)]) (ElevenLabs k)
        \<lparr>req_text = BASIC_TEXT, req_voice = VoiceObj (voice_by_name ''Rachel''),
         req_model = ''eleven_monolingual_v1'', req_stream = None\<rparr> = Inl e"
    then have g: "generate s (calls ?w3) (client ?d)
        \<lparr>req_text = BASIC_TEXT, req_voice = VoiceObj (voice_by_name ''Rachel''),
         req_model = ''eleven_monolingual_v1'', req_stream = None\<rparr> = Inl e"
      by (simp add: calls_py_print w2(1))
    from basic_tts_failure [OF v g, of "''demo_basic.mp3''"]
    have "console ?w4 = console ?w3 @
        [MsgBasicTts (take 50 BASIC_TEXT), MsgUsingVoice ''Rachel'', MsgError e]"
      by simp
    then show "\<exists>pre a b c. console (fst (main s w)) =
        console w @ pre @
          [MsgDemoHeading 2, MsgBasicTts (take 50 BASIC_TEXT), MsgUsingVoice ''Rachel'',
           MsgError e] @ a @ [MsgDemoHeading 4] @ b @ [MsgDemoHeading 5] @ c @
          [MsgAllDone, MsgCheckFiles]"
      by (rule shape)
  }
qed

text \<open>The listing call of \<^verbatim>\<open>main\<close> (l.240) is inside no operation's \<^verbatim>\<open>try\<close>: when it fails,
  the handler of \<^verbatim>\<open>main\<close> itself ends the run, no scenario is attempted and the completion
  lines are not printed. The runs of \<open>main_ok\<close> are the runs in which the scenarios start.\<close>

lemma main_listing_failure:
  assumes "environ w API_KEY_VAR = Some k" "k \<noteq> []"
    and "voices_get_all s (calls w @ [NewClient k]) (ElevenLabs k) = Inl (OtherError m)"
  shows "main s w =
    (w\<lparr>console := console w @ [MsgBanner, Line (replicate 40 (CHR ''='')), MsgDemoHeading 1,
         MsgFetchingVoices, MsgUnexpected (OtherError m)],
       calls := calls w @ [NewClient k, GetAll (ElevenLabs k)]\<rparr>, Inr ())"
  using assms
  by (simp add: main_def ElevenLabsDemo_init_def list_voices_def io_defs py_or_def
      del: One_nat_def)

section \<open>The run of the simple example\<close>

lemma extends_calls: "extends w w' \<Longrightarrow> \<exists>a. calls w' = calls w @ a"
  by (auto simp: extends_def prefix_def)

lemma extends_bind_first:
  assumes "\<And>x w. extends w (fst (f x w))"
  shows "extends (fst (m w)) (fst (bind_io m f w))"
proof (cases "m w")
  case (Pair w' r)
  then show ?thesis
    using assms by (cases r) (simp_all add: bind_io_def extends_refl)
qed

lemma extends_then_first:
  assumes "\<And>w. extends w (fst (n w))"
  shows "extends (fst (m w)) (fst (then_io m n w))"
  unfolding then_io_def using assms by (intro extends_bind_first)

lemma simple_text_to_speech_extends: "extends w (fst (simple_text_to_speech s c w))"
  unfolding simple_text_to_speech_def by (intro extends_intros)

lemma simple_example_calls:
  "\<exists>rest. calls (fst (simple_example s w)) = calls w @
     NewClient (case environ w API_KEY_VAR of None \<Rightarrow> ''YOUR_API_KEY'' | Some v \<Rightarrow> v) #
     GetAll (ElevenLabs (case environ w API_KEY_VAR of None \<Rightarrow> ''YOUR_API_KEY'' | Some v \<Rightarrow> v)) #
     rest"
proof -
  let ?k = "case environ w API_KEY_VAR of None \<Rightarrow> ''YOUR_API_KEY'' | Some v \<Rightarrow> v"
  let ?c = "ElevenLabs ?k"
  let ?w3 = "fst (py_print (Line (replicate 30 (CHR ''-'')))
     (fst (py_print MsgSimpleBanner (record_call (NewClient ?k) w))))"
  let ?rest = "then_io (py_print (Line ''''))
     (then_io (simple_text_to_speech s ?c) (py_print MsgSimpleDone))"
  let ?w4 = "fst (client_voices_get_all s ?c ?w3)"
  have eq: "simple_example s w = then_io (list_available_voices s ?c) ?rest ?w3"
    by (simp add: simple_example_def bind_io_def getenv_default_def new_client_def
        then_io_total py_print_total)
  have "extends ?w4 (fst (list_available_voices s ?c ?w3))"
    unfolding list_available_voices_def by (intro extends_bind_first extends_intros)
  moreover have "extends (fst (list_available_voices s ?c ?w3)) (fst (simple_example s w))"
    unfolding eq by (intro extends_then_first extends_intros simple_text_to_speech_extends)
  ultimately have "extends ?w4 (fst (simple_example s w))"
    by (rule extends_trans)
  then obtain a where "calls (fst (simple_example s w)) = calls ?w4 @ a"
    using extends_calls by blast
  moreover have "calls ?w4 = calls w @ [NewClient ?k, GetAll ?c]"
    by (simp add: client_voices_get_all_def calls_record_call calls_py_print)
  ultimately show ?thesis by simp
qed

lemma then_io_error:
  assumes "snd (then_io m n w) = Inl e"
  shows "snd (m w) = Inl e \<or> (\<exists>w'. snd (n w') = Inl e)"
proof (cases "m w")
  case (Pair w' r)
  then show ?thesis
    using assms by (cases r) (auto simp: then_io_def bind_io_def)
qed

lemma simple_example_eq:
  "simple_example s w =
     then_io (list_available_voices s
         (ElevenLabs (case environ w API_KEY_VAR of None \<Rightarrow> ''YOUR_API_KEY'' | Some v \<Rightarrow> v)))
       (then_io (py_print (Line ''''))
       (then_io (simple_text_to_speech s
           (ElevenLabs (case environ w API_KEY_VAR of None \<Rightarrow> ''YOUR_API_KEY'' | Some v \<Rightarrow> v)))
         (py_print MsgSimpleDone)))
       (fst (py_print (Line (replicate 30 (CHR ''-'')))
         (fst (py_print MsgSimpleBanner (record_call
           (NewClient (case environ w API_KEY_VAR of None \<Rightarrow> ''YOUR_API_KEY'' | Some v \<Rightarrow> v))
           w)))))"
  by (simp add: simple_example_def bind_io_def getenv_default_def new_client_def
      then_io_total py_print_total)

lemma list_available_voices_error:
  assumes "snd (list_available_voices s c w) = Inl e"
  shows "\<exists>h c. voices_get_all s h c = Inl e"
proof (cases "voices_get_all s (calls w) c")
  case (Inl e')
  with assms have "e' = e"
    by (simp add: list_available_voices_def bind_io_def client_voices_get_all_def)
  with Inl show ?thesis by blast
next
  case (Inr vs)
  have "snd (for_each (\<lambda>v. py_print (Line (''- '' @ vd_name v @ '' (ID: '' @ vd_voice_id v @ '')''))) vs w')
      = Inr ()" for w'
    by (intro for_each_total py_print_total)
  with Inr assms show ?thesis
    by (simp add: list_available_voices_def bind_io_def client_voices_get_all_def
        then_io_total py_print_total)
qed

lemma simple_text_to_speech_error:
  assumes "snd (simple_text_to_speech s c w) = Inl e"
  shows "(\<exists>h c r. generate s h c r = Inl e)
     \<or> (\<exists>h a p. save_error s h a p = Some e) \<or> (\<exists>h a. play_error s h a = Some e)"
  using assms
  by (auto simp: simple_text_to_speech_def io_defs split: sum.splits option.splits)

lemma simple_example_error:
  assumes "snd (simple_example s w) = Inl e"
  shows "(\<exists>h c. voices_get_all s h c = Inl e) \<or> (\<exists>h c r. generate s h c r = Inl e)
     \<or> (\<exists>h a p. save_error s h a p = Some e) \<or> (\<exists>h a. play_error s h a = Some e)"
proof -
  let ?c = "ElevenLabs (case environ w API_KEY_VAR of None \<Rightarrow> ''YOUR_API_KEY'' | Some v \<Rightarrow> v)"
  from then_io_error [OF assms [unfolded simple_example_eq]]
  consider w' where "snd (list_available_voices s ?c w') = Inl e"
    | w' where "snd (then_io (py_print (Line ''''))
       (then_io (simple_text_to_speech s ?c) (py_print MsgSimpleDone)) w') = Inl e"
    by blast
  then show ?thesis
  proof cases
    case 1
    then show ?thesis using list_available_voices_error by blast
  next
    case 2
    from then_io_error [OF 2]
    obtain w'' where "snd (then_io (simple_text_to_speech s ?c) (py_print MsgSimpleDone) w'') = Inl e"
      by (auto simp: py_print_total)
    from then_io_error [OF this]
    obtain w3 where "snd (simple_text_to_speech s ?c w3) = Inl e"
      by (auto simp: py_print_total)
    then show ?thesis using simple_text_to_speech_error by blast
  qed
qed

section \<open>Credential resolution\<close>

text \<open>
  C1. Constructing the runner with no \<^verbatim>\<open>api_key\<close> argument while \<^verbatim>\<open>ELEVENLABS_API_KEY\<close> is
  unset or empty raises the \<^verbatim>\<open>ValueError\<close> and leaves the world as it was: no client is
  built and no external call is logged. With a non-empty credential, passed or found in
  the environment, construction returns a runner that holds that credential and the
  client built from it, and the only external call is the construction of the client.
\<close>

theorem init_credential:
  "((environ w API_KEY_VAR = None \<or> environ w API_KEY_VAR = Some []) \<longrightarrow>
      ElevenLabsDemo_init None w = (w, Inl (ValueError API_KEY_REQUIRED)))
   \<and> (k \<noteq> [] \<longrightarrow> ElevenLabsDemo_init (Some k) w =
         (record_call (NewClient k) w, Inr \<lparr>api_key = k, client = ElevenLabs k\<rparr>))
   \<and> (environ w API_KEY_VAR = Some k \<and> k \<noteq> [] \<longrightarrow> ElevenLabsDemo_init None w =
         (record_call (NewClient k) w, Inr \<lparr>api_key = k, client = ElevenLabs k\<rparr>))"
  by (auto simp: ElevenLabsDemo_init_def return_io_def raise_io_def bind_io_def getenv_def
      new_client_def py_or_def)

theorem init_credential_witness:
  "environ empty_world API_KEY_VAR = None
   \<and> ElevenLabsDemo_init None empty_world = (empty_world, Inl (ValueError API_KEY_REQUIRED))
   \<and> ''test-key'' \<noteq> []
   \<and> ElevenLabsDemo_init (Some ''test-key'') empty_world =
         (record_call (NewClient ''test-key'') empty_world,
          Inr \<lparr>api_key = ''test-key'', client = ElevenLabs ''test-key''\<rparr>)
   \<and> environ key_world API_KEY_VAR = Some ''test-key''
   \<and> ElevenLabsDemo_init None key_world =
         (record_call (NewClient ''test-key'') key_world,
          Inr \<lparr>api_key = ''test-key'', client = ElevenLabs ''test-key''\<rparr>)"
  using init_credential [of empty_world "''test-key''"]
    init_credential [of key_world "''test-key''"]
  by (simp add: empty_world_def key_world_def)

text \<open>
  C9. An explicitly passed empty string is treated as no argument: \<^verbatim>\<open>api_key or getenv\<close>
  falls through to the environment for \<open>None\<close> and for the empty string alike, and yields
  the argument itself only when it is non-empty, whatever the environment holds. So with
  the empty string passed, a non-empty credential in the environment is the one the
  runner and its client are built with, and with no credential there either the
  \<^verbatim>\<open>ValueError\<close> is raised.
\<close>

theorem init_empty_key_is_absent:
  "ElevenLabsDemo_init (Some []) w = ElevenLabsDemo_init None w
   \<and> py_or (Some []) e = e \<and> py_or None e = e
   \<and> (k \<noteq> [] \<longrightarrow> py_or (Some k) e = Some k)
   \<and> (k \<noteq> [] \<longrightarrow> ElevenLabsDemo_init (Some k) w =
         (record_call (NewClient k) w, Inr \<lparr>api_key = k, client = ElevenLabs k\<rparr>))
   \<and> (environ w API_KEY_VAR = Some k \<and> k \<noteq> [] \<longrightarrow> ElevenLabsDemo_init (Some []) w =
         (record_call (NewClient k) w, Inr \<lparr>api_key = k, client = ElevenLabs k\<rparr>))
   \<and> ((environ w API_KEY_VAR = None \<or> environ w API_KEY_VAR = Some []) \<longrightarrow>
         ElevenLabsDemo_init (Some []) w = (w, Inl (ValueError API_KEY_REQUIRED)))"
  by (auto simp: ElevenLabsDemo_init_def return_io_def raise_io_def bind_io_def getenv_def
      new_client_def py_or_def)

theorem init_empty_key_is_absent_witness:
  "ElevenLabsDemo_init (Some []) key_world = ElevenLabsDemo_init None key_world
   \<and> ''other-key'' \<noteq> []
   \<and> py_or (Some ''other-key'') (Some ''test-key'') = Some ''other-key''
   \<and> ElevenLabsDemo_init (Some ''other-key'') key_world =
         (record_call (NewClient ''other-key'') key_world,
          Inr \<lparr>api_key = ''other-key'', client = ElevenLabs ''other-key''\<rparr>)
   \<and> environ key_world API_KEY_VAR = Some ''test-key'' \<and> ''test-key'' \<noteq> []
   \<and> ElevenLabsDemo_init (Some []) key_world =
         (record_call (NewClient ''test-key'') key_world,
          Inr \<lparr>api_key = ''test-key'', client = ElevenLabs ''test-key''\<rparr>)
   \<and> environ empty_world API_KEY_VAR = None
   \<and> ElevenLabsDemo_init (Some []) empty_world =
         (empty_world, Inl (ValueError API_KEY_REQUIRED))"
proof -
  have h: "environ key_world API_KEY_VAR = Some ''test-key''"
    "environ empty_world API_KEY_VAR = None"
    "''other-key'' \<noteq> []" "''test-key'' \<noteq> []"
    by (simp_all add: key_world_def empty_world_def)
  show ?thesis
    using init_empty_key_is_absent [of key_world "Some ''test-key''" "''other-key''"]
      init_empty_key_is_absent [of key_world "Some ''test-key''" "''test-key''"]
      init_empty_key_is_absent [of empty_world "Some ''test-key''" "''test-key''"] h
    by blast
qed

section \<open>Looking a voice up by name\<close>

lemma scan_voices_find:
  "scan_voices f vs q = List.find (\<lambda>v. f (vd_name v) = f q) vs"
  by (induction vs) simp_all

lemma scan_voices_Some_iff:
  "scan_voices f vs q = Some v \<longleftrightarrow>
     (\<exists>pre post. vs = pre @ v # post \<and> f (vd_name v) = f q
        \<and> (\<forall>u \<in> set pre. f (vd_name u) \<noteq> f q))"
proof
  assume "scan_voices f vs q = Some v"
  then obtain i where i: "i < length vs" "f (vd_name (vs ! i)) = f q" "v = vs ! i"
    "\<forall>j<i. f (vd_name (vs ! j)) \<noteq> f q"
    by (auto simp: scan_voices_find find_Some_iff)
  have "vs = take i vs @ v # drop (Suc i) vs"
    using i by (simp add: id_take_nth_drop)
  moreover have "\<forall>u \<in> set (take i vs). f (vd_name u) \<noteq> f q"
    using i by (auto simp: in_set_conv_nth)
  ultimately show "\<exists>pre post. vs = pre @ v # post \<and> f (vd_name v) = f q
      \<and> (\<forall>u \<in> set pre. f (vd_name u) \<noteq> f q)"
    using i by blast
next
  assume "\<exists>pre post. vs = pre @ v # post \<and> f (vd_name v) = f q
      \<and> (\<forall>u \<in> set pre. f (vd_name u) \<noteq> f q)"
  then obtain pre post where p: "vs = pre @ v # post" "f (vd_name v) = f q"
    "\<forall>u \<in> set pre. f (vd_name u) \<noteq> f q" by blast
  have "scan_voices f (pre @ v # post) q = Some v"
    using p(2,3) by (induction pre) simp_all
  with p show "scan_voices f vs q = Some v" by simp
qed

lemma scan_voices_cong:
  "f q = f q' \<Longrightarrow> scan_voices f vs q = scan_voices f vs q'"
  by (simp add: scan_voices_find)

text \<open>
  C2. Whenever the remote listing call returns a listing, \<^verbatim>\<open>get_voice_by_name\<close> returns
  normally with the result of the scan. Two names match when \<^verbatim>\<open>str.lower()\<close> maps them to
  the same string, whatever that function does to characters outside ASCII: the result is
  the first voice of the listing whose lowercased name equals the lowercased query (every
  voice before it does not match), and \<open>None\<close> exactly when no voice matches. Two queries
  with the same lowercased form give the same result; \<^verbatim>\<open>rachel\<close> and \<^verbatim>\<open>Rachel\<close> are such a
  pair for every \<^verbatim>\<open>str.lower()\<close> that folds A-Z on ASCII strings.
\<close>

theorem get_voice_by_name_first_match:
  assumes "voices_get_all s (calls w) (client d) = Inr vs"
  shows "get_voice_by_name s d q w =
      (record_call (GetAll (client d)) w, Inr (scan_voices (str_lower s) vs q))
    \<and> (\<forall>v. scan_voices (str_lower s) vs q = Some v \<longleftrightarrow>
          (\<exists>pre post. vs = pre @ v # post \<and> str_lower s (vd_name v) = str_lower s q
             \<and> (\<forall>u \<in> set pre. str_lower s (vd_name u) \<noteq> str_lower s q)))
    \<and> (scan_voices (str_lower s) vs q = None \<longleftrightarrow>
          (\<forall>u \<in> set vs. str_lower s (vd_name u) \<noteq> str_lower s q))
    \<and> (str_lower s q = str_lower s q' \<longrightarrow>
          get_voice_by_name s d q w = get_voice_by_name s d q' w)
    \<and> (lowers_ascii (str_lower s) \<longrightarrow>
          get_voice_by_name s d ''rachel'' w = get_voice_by_name s d ''Rachel'' w)"
proof -
  have 1: "get_voice_by_name s d q w =
      (record_call (GetAll (client d)) w, Inr (scan_voices (str_lower s) vs q))" for q
    using assms
    by (simp add: get_voice_by_name_def bind_io_def client_voices_get_all_def return_io_def)
  have 3: "scan_voices (str_lower s) vs q = None \<longleftrightarrow>
      (\<forall>u \<in> set vs. str_lower s (vd_name u) \<noteq> str_lower s q)"
    by (auto simp: scan_voices_find find_None_iff)
  have 4: "str_lower s q = str_lower s q' \<longrightarrow>
      get_voice_by_name s d q w = get_voice_by_name s d q' w"
    by (auto simp: 1 dest: scan_voices_cong)
  have 5: "lowers_ascii (str_lower s) \<longrightarrow>
      get_voice_by_name s d ''rachel'' w = get_voice_by_name s d ''Rachel'' w"
  proof
    assume "lowers_ascii (str_lower s)"
    then have "str_lower s ''rachel'' = str_lower s ''Rachel''"
      by (simp add: lowers_ascii_names)
    then show "get_voice_by_name s d ''rachel'' w = get_voice_by_name s d ''Rachel'' w"
      by (auto simp: 1 dest: scan_voices_cong)
  qed
  show ?thesis
    using 1 [of q] 3 4 5 scan_voices_Some_iff [of "str_lower s" vs q] by simp
qed

text \<open>A listing of Drew and Rachel, and one of Drew and \<open>elodie\<close>, under a lowercasing that
  folds the accented capital too: the query with the small e with acute accent finds her.\<close>

theorem get_voice_by_name_first_match_witness:
  "voices_get_all fake_sdk (calls empty_world) (client test_demo) = Inr [drew, rachel]
   \<and> lowers_ascii (str_lower fake_sdk)
   \<and> get_voice_by_name fake_sdk test_demo ''RACHEL'' empty_world =
       (record_call (GetAll (client test_demo)) empty_world, Inr (Some rachel))
   \<and> get_voice_by_name fake_sdk test_demo ''rachel'' empty_world =
       get_voice_by_name fake_sdk test_demo ''Rachel'' empty_world
   \<and> get_voice_by_name fake_sdk test_demo ''Nobody'' empty_world =
       (record_call (GetAll (client test_demo)) empty_world, Inr None)
   \<and> voices_get_all elodie_sdk (calls empty_world) (client test_demo) = Inr [drew, elodie]
   \<and> get_voice_by_name elodie_sdk test_demo (CHR 0xE9 # ''lodie'') empty_world =
       (record_call (GetAll (client test_demo)) empty_world, Inr (Some elodie))"
proof -
  have l: "voices_get_all fake_sdk (calls empty_world) (client test_demo) = Inr [drew, rachel]"
    by (simp add: fake_sdk_def)
  have l': "voices_get_all elodie_sdk (calls empty_world) (client test_demo) =
      Inr [drew, elodie]"
    by (simp add: elodie_sdk_def)
  have f: "str_lower fake_sdk = latin1_lower" "str_lower elodie_sdk = latin1_lower"
    by (simp_all add: fake_sdk_def elodie_sdk_def)
  have a: "scan_voices latin1_lower [drew, rachel] ''RACHEL'' = Some rachel"
    by code_simp
  have b: "scan_voices latin1_lower [drew, rachel] ''Nobody'' = None"
    by code_simp
  have c: "scan_voices latin1_lower [drew, elodie] (CHR 0xE9 # ''lodie'') = Some elodie"
    by code_simp
  show ?thesis
    using get_voice_by_name_first_match [OF l, of "''RACHEL''" "''RACHEL''"]
      get_voice_by_name_first_match [OF l, of "''Nobody''" "''Nobody''"]
      get_voice_by_name_first_match [OF l', of "CHR 0xE9 # ''lodie''" "CHR 0xE9 # ''lodie''"]
      l l' a b c latin1_lowers_ascii
    by (simp add: f)
qed

section \<open>Comparing voices\<close>

lemma demo_voice_body_written:
  assumes "voice_without_id s (voice_by_name n) = None"
    and "generate s (calls w) (client d)
       \<lparr>req_text = t, req_voice = VoiceObj (voice_by_name n),
        req_model = ''eleven_monolingual_v1'', req_stream = None\<rparr> = Inr a"
    and "save_error s (calls w @ [Generate (client d)
          \<lparr>req_text = t, req_voice = VoiceObj (voice_by_name n),
           req_model = ''eleven_monolingual_v1'', req_stream = None\<rparr>])
          a (demo_output_file s i n) = None"
  shows "demo_voice_body s d t (i, n) w =
     (w\<lparr>files := (files w)(demo_output_file s i n \<mapsto> audio_bytes a),
        console := console w @
          [MsgVoiceIndex i n, MsgVoiceSaved (demo_output_file s i n)],
        calls := calls w @ [Generate (client d)
          \<lparr>req_text = t, req_voice = VoiceObj (voice_by_name n),
           req_model = ''eleven_monolingual_v1'', req_stream = None\<rparr>,
          Save a (demo_output_file s i n)]\<rparr>, Inr ())"
  using assms by (simp add: demo_voice_body_def io_defs)

lemma demo_voice_body_unwritten:
  assumes "voice_without_id s (voice_by_name n) = None"
    and "generate s (calls w) (client d)
       \<lparr>req_text = t, req_voice = VoiceObj (voice_by_name n),
        req_model = ''eleven_monolingual_v1'', req_stream = None\<rparr> = Inr a"
    and "save_error s (calls w @ [Generate (client d)
          \<lparr>req_text = t, req_voice = VoiceObj (voice_by_name n),
           req_model = ''eleven_monolingual_v1'', req_stream = None\<rparr>])
          a (demo_output_file s i n) = Some e"
  shows "demo_voice_body s d t (i, n) w =
     (w\<lparr>console := console w @ [MsgVoiceIndex i n, MsgVoiceFailed n e],
        calls := calls w @ [Generate (client d)
          \<lparr>req_text = t, req_voice = VoiceObj (voice_by_name n),
           req_model = ''eleven_monolingual_v1'', req_stream = None\<rparr>,
          Save a (demo_output_file s i n)]\<rparr>, Inr ())"
  using assms by (simp add: demo_voice_body_def io_defs)

lemma demo_paths_distinct:
  assumes "lowers_ascii (str_lower s)"
  shows "distinct [demo_output_file s 1 ''Rachel'', demo_output_file s 2 ''Drew'',
    demo_output_file s 3 ''Clyde'', demo_output_file s 4 ''Paul'']"
  by (simp add: demo_paths [OF assms] del: One_nat_def)

text \<open>
  C3. \<^verbatim>\<open>demo_multiple_voices\<close> takes no list of voices: after its heading it runs the body
  of its loop once for each of the four names written in it, in the order Rachel, Drew,
  Clyde, Paul with the indices 1 to 4, each run starting in the world the run before it
  left, and it returns normally. One run of the body, for an index \<open>i\<close> and a name \<open>n\<close> and
  from any world, does exactly one of four things and returns normally in each. When
  building the \<^verbatim>\<open>Voice\<close> raises \<open>e\<close>, it prints the failure of \<open>n\<close> with \<open>e\<close> and makes no
  external call. When the synthesis call raises \<open>e\<close>, that call is its only external call
  and it prints the failure. When the synthesis call returns audio, it saves that audio
  under the path made of \<open>i\<close> and the lowercased \<open>n\<close>: the file then holds the bytes of the
  audio and the saved line is printed, or, when the write raises \<open>e\<close>, the failure is
  printed. So a voice whose synthesis succeeds is saved whatever happened to the voices
  before it. For every \<^verbatim>\<open>str.lower()\<close> that folds A-Z on ASCII strings the four paths are
  \<^verbatim>\<open>demo_voice_1_rachel.mp3\<close>, \<^verbatim>\<open>demo_voice_2_drew.mp3\<close>, \<^verbatim>\<open>demo_voice_3_clyde.mp3\<close> and
  \<^verbatim>\<open>demo_voice_4_paul.mp3\<close>, pairwise distinct. The synthesis requests of the whole run are, in
  the order of the list, one request for each name whose \<^verbatim>\<open>Voice\<close> is built: at most four.
\<close>

theorem demo_multiple_voices_each_voice:
  "fst (demo_multiple_voices s d t w) =
     fst (demo_voice_body s d t (4, ''Paul'')
       (fst (demo_voice_body s d t (3, ''Clyde'')
         (fst (demo_voice_body s d t (2, ''Drew'')
           (fst (demo_voice_body s d t (1, ''Rachel'')
             (fst (py_print (MsgMultiVoice t) w)))))))))
   \<and> snd (demo_multiple_voices s d t w) = Inr ()
   \<and> (voice_without_id s (voice_by_name n) = Some e \<longrightarrow>
        demo_voice_body s d t (i, n) w' =
          (w'\<lparr>console := console w' @ [MsgVoiceIndex i n, MsgVoiceFailed n e]\<rparr>, Inr ()))
   \<and> (voice_without_id s (voice_by_name n) = None
        \<and> generate s (calls w') (client d)
            \<lparr>req_text = t, req_voice = VoiceObj (voice_by_name n),
             req_model = ''eleven_monolingual_v1'', req_stream = None\<rparr> = Inl e \<longrightarrow>
        demo_voice_body s d t (i, n) w' =
          (w'\<lparr>console := console w' @ [MsgVoiceIndex i n, MsgVoiceFailed n e],
              calls := calls w' @ [Generate (client d)
                \<lparr>req_text = t, req_voice = VoiceObj (voice_by_name n),
                 req_model = ''eleven_monolingual_v1'', req_stream = None\<rparr>]\<rparr>, Inr ()))
   \<and> (voice_without_id s (voice_by_name n) = None
        \<and> generate s (calls w') (client d)
            \<lparr>req_text = t, req_voice = VoiceObj (voice_by_name n),
             req_model = ''eleven_monolingual_v1'', req_stream = None\<rparr> = Inr a
        \<and> save_error s (calls w' @ [Generate (client d)
            \<lparr>req_text = t, req_voice = VoiceObj (voice_by_name n),
             req_model = ''eleven_monolingual_v1'', req_stream = None\<rparr>])
            a (demo_output_file s i n) = None \<longrightarrow>
        demo_voice_body s d t (i, n) w' =
          (w'\<lparr>files := (files w')(demo_output_file s i n \<mapsto> audio_bytes a),
              console := console w' @
                [MsgVoiceIndex i n, MsgVoiceSaved (demo_output_file s i n)],
              calls := calls w' @ [Generate (client d)
                \<lparr>req_text = t, req_voice = VoiceObj (voice_by_name n),
                 req_model = ''eleven_monolingual_v1'', req_stream = None\<rparr>,
                Save a (demo_output_file s i n)]\<rparr>, Inr ()))
   \<and> (voice_without_id s (voice_by_name n) = None
        \<and> generate s (calls w') (client d)
            \<lparr>req_text = t, req_voice = VoiceObj (voice_by_name n),
             req_model = ''eleven_monolingual_v1'', req_stream = None\<rparr> = Inr a
        \<and> save_error s (calls w' @ [Generate (client d)
            \<lparr>req_text = t, req_voice = VoiceObj (voice_by_name n),
             req_model = ''eleven_monolingual_v1'', req_stream = None\<rparr>])
            a (demo_output_file s i n) = Some e \<longrightarrow>
        demo_voice_body s d t (i, n) w' =
          (w'\<lparr>console := console w' @ [MsgVoiceIndex i n, MsgVoiceFailed n e],
              calls := calls w' @ [Generate (client d)
                \<lparr>req_text = t, req_voice = VoiceObj (voice_by_name n),
                 req_model = ''eleven_monolingual_v1'', req_stream = None\<rparr>,
                Save a (demo_output_file s i n)]\<rparr>, Inr ()))
   \<and> (lowers_ascii (str_lower s) \<longrightarrow>
        demo_output_file s 1 ''Rachel'' = ''demo_voice_1_rachel.mp3''
        \<and> demo_output_file s 2 ''Drew'' = ''demo_voice_2_drew.mp3''
        \<and> demo_output_file s 3 ''Clyde'' = ''demo_voice_3_clyde.mp3''
        \<and> demo_output_file s 4 ''Paul'' = ''demo_voice_4_paul.mp3''
        \<and> distinct [demo_output_file s 1 ''Rachel'', demo_output_file s 2 ''Drew'',
             demo_output_file s 3 ''Clyde'', demo_output_file s 4 ''Paul''])
   \<and> generate_requests (calls (fst (demo_multiple_voices s d t w))) =
       generate_requests (calls w) @
         concat (map (\<lambda>n. case voice_without_id s (voice_by_name n) of
                  None \<Rightarrow> [\<lparr>req_text = t, req_voice = VoiceObj (voice_by_name n),
                            req_model = ''eleven_monolingual_v1'', req_stream = None\<rparr>]
                | Some e \<Rightarrow> [])
           [''Rachel'', ''Drew'', ''Clyde'', ''Paul''])"
  apply (intro conjI impI; (elim conjE)?)
            apply (rule demo_multiple_voices_unfold)
           apply (rule demo_multiple_voices_total)
          apply (erule demo_voice_body_rejected)
         apply (erule (1) demo_voice_body_failed)
        apply (erule (2) demo_voice_body_written)
       apply (erule (2) demo_voice_body_unwritten)
      apply (erule demo_paths(1))
     apply (erule demo_paths(2))
    apply (erule demo_paths(3))
   apply (erule demo_paths(4))
   apply (erule demo_paths_distinct)
  apply (rule demo_multiple_voices_requests)
  done

text \<open>Four runs of the body from the empty world: \<^verbatim>\<open>Voice\<close> raises; the synthesis for
  Rachel fails; Drew's audio is saved in the world that Rachel's failure left; the write
  fails. In the whole run where only the synthesis for Rachel fails, the three later
  voices are saved.\<close>

theorem demo_multiple_voices_each_voice_witness:
  "voice_without_id strict_sdk (voice_by_name ''Rachel'') = Some VOICE_ID_REQUIRED
   \<and> demo_voice_body strict_sdk test_demo ''Hello'' (1, ''Rachel'') empty_world =
       (empty_world\<lparr>console := console empty_world @
          [MsgVoiceIndex 1 ''Rachel'', MsgVoiceFailed ''Rachel'' VOICE_ID_REQUIRED]\<rparr>, Inr ())
   \<and> voice_without_id rachel_fails_sdk (voice_by_name ''Rachel'') = None
   \<and> generate rachel_fails_sdk (calls empty_world) (client test_demo)
        \<lparr>req_text = ''Hello'', req_voice = VoiceObj (voice_by_name ''Rachel''),
         req_model = ''eleven_monolingual_v1'', req_stream = None\<rparr> =
       Inl (OtherError ''voice not found'')
   \<and> demo_voice_body rachel_fails_sdk test_demo ''Hello'' (1, ''Rachel'') empty_world =
       (empty_world\<lparr>console := console empty_world @
          [MsgVoiceIndex 1 ''Rachel'',
           MsgVoiceFailed ''Rachel'' (OtherError ''voice not found'')],
          calls := calls empty_world @ [Generate (client test_demo)
            \<lparr>req_text = ''Hello'', req_voice = VoiceObj (voice_by_name ''Rachel''),
             req_model = ''eleven_monolingual_v1'', req_stream = None\<rparr>]\<rparr>, Inr ())
   \<and> lowers_ascii (str_lower rachel_fails_sdk)
   \<and> demo_output_file rachel_fails_sdk 2 ''Drew'' = ''demo_voice_2_drew.mp3''
   \<and> files (fst (demo_voice_body rachel_fails_sdk test_demo ''Hello'' (2, ''Drew'')
        (fst (demo_voice_body rachel_fails_sdk test_demo ''Hello'' (1, ''Rachel'')
           empty_world)))) ''demo_voice_2_drew.mp3'' = Some ''RIFF...''
   \<and> save_error save_fails_sdk (calls empty_world @ [Generate (client test_demo)
        \<lparr>req_text = ''Hello'', req_voice = VoiceObj (voice_by_name ''Rachel''),
         req_model = ''eleven_monolingual_v1'', req_stream = None\<rparr>])
        (Buffer ''RIFF...'') (demo_output_file save_fails_sdk 1 ''Rachel'') =
       Some (OtherError ''disk full'')
   \<and> demo_voice_body save_fails_sdk test_demo ''Hello'' (1, ''Rachel'') empty_world =
       (empty_world\<lparr>console := console empty_world @
          [MsgVoiceIndex 1 ''Rachel'', MsgVoiceFailed ''Rachel'' (OtherError ''disk full'')],
          calls := calls empty_world @ [Generate (client test_demo)
            \<lparr>req_text = ''Hello'', req_voice = VoiceObj (voice_by_name ''Rachel''),
             req_model = ''eleven_monolingual_v1'', req_stream = None\<rparr>,
            Save (Buffer ''RIFF...'') (demo_output_file save_fails_sdk 1 ''Rachel'')]\<rparr>,
        Inr ())
   \<and> saved_paths (calls (fst
        (demo_multiple_voices rachel_fails_sdk test_demo ''Hello'' empty_world))) =
       [''demo_voice_2_drew.mp3'', ''demo_voice_3_clyde.mp3'', ''demo_voice_4_paul.mp3'']"
proof -
  let ?w1 = "fst (demo_voice_body rachel_fails_sdk test_demo ''Hello'' (1, ''Rachel'')
    empty_world)"
  let ?R = "\<lambda>n. \<lparr>req_text = ''Hello'', req_voice = VoiceObj (voice_by_name n),
    req_model = ''eleven_monolingual_v1'', req_stream = None\<rparr>"
  have h1: "voice_without_id strict_sdk (voice_by_name ''Rachel'') = Some VOICE_ID_REQUIRED"
    by (simp add: strict_sdk_def)
  have h2: "voice_without_id rachel_fails_sdk (voice_by_name n) = None"
    "voice_without_id save_fails_sdk (voice_by_name n) = None" for n
    by (simp_all add: rachel_fails_sdk_def save_fails_sdk_def fake_sdk_def)
  have h3: "generate rachel_fails_sdk (calls empty_world) (client test_demo) (?R ''Rachel'') =
      Inl (OtherError ''voice not found'')"
    by (simp add: rachel_fails_sdk_def)
  have h4: "generate rachel_fails_sdk (calls ?w1) (client test_demo) (?R ''Drew'') =
      Inr (Buffer ''RIFF...'')"
    by (simp add: rachel_fails_sdk_def voice_by_name_def)
  have h5: "save_error rachel_fails_sdk
      (calls ?w1 @ [Generate (client test_demo) (?R ''Drew'')])
      (Buffer ''RIFF...'') (demo_output_file rachel_fails_sdk 2 ''Drew'') = None"
    by (simp add: rachel_fails_sdk_def fake_sdk_def)
  have h6: "generate save_fails_sdk (calls empty_world) (client test_demo) (?R ''Rachel'') =
      Inr (Buffer ''RIFF...'')"
    by (simp add: save_fails_sdk_def fake_sdk_def)
  have h7: "save_error save_fails_sdk
      (calls empty_world @ [Generate (client test_demo) (?R ''Rachel'')])
      (Buffer ''RIFF...'') (demo_output_file save_fails_sdk 1 ''Rachel'') =
      Some (OtherError ''disk full'')"
    by (simp add: save_fails_sdk_def)
  have h8: "lowers_ascii (str_lower rachel_fails_sdk)"
    by (simp add: rachel_fails_sdk_def fake_sdk_def latin1_lowers_ascii)
  have a: "demo_voice_body strict_sdk test_demo ''Hello'' (1, ''Rachel'') empty_world =
       (empty_world\<lparr>console := console empty_world @
          [MsgVoiceIndex 1 ''Rachel'', MsgVoiceFailed ''Rachel'' VOICE_ID_REQUIRED]\<rparr>, Inr ())"
    using demo_multiple_voices_each_voice [of strict_sdk test_demo "''Hello''" empty_world
        "''Rachel''" VOICE_ID_REQUIRED 1 empty_world "Buffer ''RIFF...''"] h1
    by blast
  have b: "demo_voice_body rachel_fails_sdk test_demo ''Hello'' (1, ''Rachel'') empty_world =
       (empty_world\<lparr>console := console empty_world @
          [MsgVoiceIndex 1 ''Rachel'',
           MsgVoiceFailed ''Rachel'' (OtherError ''voice not found'')],
          calls := calls empty_world @ [Generate (client test_demo) (?R ''Rachel'')]\<rparr>,
        Inr ())"
    using demo_multiple_voices_each_voice [of rachel_fails_sdk test_demo "''Hello''"
        empty_world "''Rachel''" "OtherError ''voice not found''" 1 empty_world
        "Buffer ''RIFF...''"] h2 h3
    by blast
  have c: "demo_output_file rachel_fails_sdk 2 ''Drew'' = ''demo_voice_2_drew.mp3''"
    "demo_voice_body rachel_fails_sdk test_demo ''Hello'' (2, ''Drew'') ?w1 =
       (?w1\<lparr>files := (files ?w1)(demo_output_file rachel_fails_sdk 2 ''Drew'' \<mapsto>
            audio_bytes (Buffer ''RIFF...'')),
          console := console ?w1 @
            [MsgVoiceIndex 2 ''Drew'',
             MsgVoiceSaved (demo_output_file rachel_fails_sdk 2 ''Drew'')],
          calls := calls ?w1 @ [Generate (client test_demo) (?R ''Drew''),
            Save (Buffer ''RIFF...'') (demo_output_file rachel_fails_sdk 2 ''Drew'')]\<rparr>,
        Inr ())"
    using demo_multiple_voices_each_voice [of rachel_fails_sdk test_demo "''Hello''"
        empty_world "''Drew''" "OtherError ''voice not found''" 2 ?w1
        "Buffer ''RIFF...''"] h2 h4 h5 h8
    by blast+
  have c': "files (fst (demo_voice_body rachel_fails_sdk test_demo ''Hello'' (2, ''Drew'') ?w1))
      ''demo_voice_2_drew.mp3'' = Some ''RIFF...''"
    by (simp add: c del: One_nat_def)
  have d: "demo_voice_body save_fails_sdk test_demo ''Hello'' (1, ''Rachel'') empty_world =
       (empty_world\<lparr>console := console empty_world @
          [MsgVoiceIndex 1 ''Rachel'', MsgVoiceFailed ''Rachel'' (OtherError ''disk full'')],
          calls := calls empty_world @ [Generate (client test_demo) (?R ''Rachel''),
            Save (Buffer ''RIFF...'') (demo_output_file save_fails_sdk 1 ''Rachel'')]\<rparr>,
        Inr ())"
    using demo_multiple_voices_each_voice [of save_fails_sdk test_demo "''Hello''"
        empty_world "''Rachel''" "OtherError ''disk full''" 1 empty_world
        "Buffer ''RIFF...''"] h2 h6 h7
    by blast
  have e: "saved_paths (calls (fst
        (demo_multiple_voices rachel_fails_sdk test_demo ''Hello'' empty_world))) =
       [''demo_voice_2_drew.mp3'', ''demo_voice_3_clyde.mp3'', ''demo_voice_4_paul.mp3'']"
    by code_simp
  show ?thesis
    using h1 h2 [of "''Rachel''"] h3 h7 h8 a b c(1) c' d e by blast
qed

text \<open>The claim as the spec words it (three names given, exactly three calls) fails. The
  method takes no list. With \<^verbatim>\<open>Voice\<close> raising for a name alone, as the released SDK does,
  the four iterations run, each prints its failure, and no synthesis call is made and no
  file is saved; with a \<^verbatim>\<open>Voice\<close> that accepts a name alone, four calls are made and four
  files saved.\<close>

theorem demo_multiple_voices_counterexample:
  "generate_requests (calls (fst
      (demo_multiple_voices strict_sdk test_demo ''Hello'' empty_world))) = []
   \<and> saved_paths (calls (fst
      (demo_multiple_voices strict_sdk test_demo ''Hello'' empty_world))) = []
   \<and> console (fst (demo_multiple_voices strict_sdk test_demo ''Hello'' empty_world)) =
      [MsgMultiVoice ''Hello'',
       MsgVoiceIndex 1 ''Rachel'', MsgVoiceFailed ''Rachel'' VOICE_ID_REQUIRED,
       MsgVoiceIndex 2 ''Drew'', MsgVoiceFailed ''Drew'' VOICE_ID_REQUIRED,
       MsgVoiceIndex 3 ''Clyde'', MsgVoiceFailed ''Clyde'' VOICE_ID_REQUIRED,
       MsgVoiceIndex 4 ''Paul'', MsgVoiceFailed ''Paul'' VOICE_ID_REQUIRED]
   \<and> length (generate_requests (calls (fst
      (demo_multiple_voices fake_sdk test_demo ''Hello'' empty_world)))) = 4
   \<and> saved_paths (calls (fst
      (demo_multiple_voices fake_sdk test_demo ''Hello'' empty_world))) =
      [''demo_voice_1_rachel.mp3'', ''demo_voice_2_drew.mp3'', ''demo_voice_3_clyde.mp3'',
       ''demo_voice_4_paul.mp3'']"
  by code_simp

section \<open>Failures stay inside the operation\<close>

text \<open>
  C4. \<^verbatim>\<open>basic_tts\<close> returns normally on every input. What fails inside its \<^verbatim>\<open>try\<close> is
  reported and goes no further: when building the \<^verbatim>\<open>Voice\<close> raises \<open>e\<close>, the operation
  has printed its two header lines and the error line for \<open>e\<close> and made no external call;
  when the \<^verbatim>\<open>Voice\<close> is built and the synthesis call raises \<open>e\<close>, it has printed the same
  three lines, made that one external call, and saved and played nothing. In a run of
  \<^verbatim>\<open>main\<close> that gets as far as the scenarios (the credential is found and the listing
  succeeds), whatever the collaborators answer afterwards: \<^verbatim>\<open>main\<close> returns normally, and
  after the heading of the basic scenario the headings of the streaming scenario and of
  the comparison are printed, and the two completion lines are the last lines printed.
  When the basic scenario fails in either of the two ways, its error line for \<open>e\<close> stands
  right after its header lines and before those headings.
\<close>

theorem basic_tts_failure_contained:
  "snd (basic_tts s d t v out w) = Inr ()
   \<and> (voice_without_id s (voice_by_name v) = Some e \<longrightarrow>
       basic_tts s d t v out w =
         (w\<lparr>console := console w @ [MsgBasicTts (take 50 t), MsgUsingVoice v, MsgError e]\<rparr>,
          Inr ()))
   \<and> (voice_without_id s (voice_by_name v) = None
       \<and> generate s (calls w) (client d)
           \<lparr>req_text = t, req_voice = VoiceObj (voice_by_name v),
            req_model = ''eleven_monolingual_v1'', req_stream = None\<rparr> = Inl e \<longrightarrow>
       basic_tts s d t v out w =
         (w\<lparr>console := console w @ [MsgBasicTts (take 50 t), MsgUsingVoice v, MsgError e],
            calls := calls w @ [Generate (client d)
              \<lparr>req_text = t, req_voice = VoiceObj (voice_by_name v),
               req_model = ''eleven_monolingual_v1'', req_stream = None\<rparr>]\<rparr>, Inr ()))
   \<and> (environ w API_KEY_VAR = Some k \<and> k \<noteq> []
        \<and> voices_get_all s (calls w @ [NewClient k]) (ElevenLabs k) = Inr vs \<longrightarrow>
       snd (main s w) = Inr ()
       \<and> (\<exists>pre a b c. console (fst (main s w)) =
            console w @ pre @ [MsgDemoHeading 2] @ a @ [MsgDemoHeading 4] @ b @
              [MsgDemoHeading 5] @ c @ [MsgAllDone, MsgCheckFiles])
       \<and> (voice_without_id s (voice_by_name ''Rachel'') = Some e \<longrightarrow>
           (\<exists>pre a b c. console (fst (main s w)) =
              console w @ pre @
                [MsgDemoHeading 2, MsgBasicTts (take 50 BASIC_TEXT), MsgUsingVoice ''Rachel'',
                 MsgError e] @ a @ [MsgDemoHeading 4] @ b @ [MsgDemoHeading 5] @ c @
                [MsgAllDone, MsgCheckFiles]))
       \<and> (voice_without_id s (voice_by_name ''Rachel'') = None
           \<and> generate s (calls w @ [NewClient k, GetAll (ElevenLabs k)]) (ElevenLabs k)
               \<lparr>req_text = BASIC_TEXT, req_voice = VoiceObj (voice_by_name ''Rachel''),
                req_model = ''eleven_monolingual_v1'', req_stream = None\<rparr> = Inl e \<longrightarrow>
           (\<exists>pre a b c. console (fst (main s w)) =
              console w @ pre @
                [MsgDemoHeading 2, MsgBasicTts (take 50 BASIC_TEXT), MsgUsingVoice ''Rachel'',
                 MsgError e] @ a @ [MsgDemoHeading 4] @ b @ [MsgDemoHeading 5] @ c @
                [MsgAllDone, MsgCheckFiles])))"
  apply (intro conjI impI; (elim conjE)?)
        apply (rule basic_tts_total)
       apply (erule basic_tts_rejected)
      apply (erule (1) basic_tts_failure)
     apply (erule (2) main_ok(1))
    apply (erule (2) main_ok(2))
   apply (erule (3) main_ok(3))
  apply (erule (4) main_ok(4))
  done

text \<open>Two runs of \<^verbatim>\<open>main\<close> with a credential in the environment: one where \<^verbatim>\<open>Voice\<close> raises
  for a name alone, one where every synthesis call fails.\<close>

theorem basic_tts_failure_contained_witness:
  "environ key_world API_KEY_VAR = Some ''test-key'' \<and> ''test-key'' \<noteq> []
   \<and> voices_get_all strict_sdk (calls key_world @ [NewClient ''test-key''])
        (ElevenLabs ''test-key'') = Inr [drew, rachel]
   \<and> voice_without_id strict_sdk (voice_by_name ''Rachel'') = Some VOICE_ID_REQUIRED
   \<and> basic_tts strict_sdk test_demo ''Hello'' ''Rachel'' ''out.mp3'' key_world =
        (key_world\<lparr>console := console key_world @
           [MsgBasicTts (take 50 ''Hello''), MsgUsingVoice ''Rachel'',
            MsgError VOICE_ID_REQUIRED]\<rparr>, Inr ())
   \<and> snd (main strict_sdk key_world) = Inr ()
   \<and> (\<exists>pre a b c. console (fst (main strict_sdk key_world)) =
        console key_world @ pre @
          [MsgDemoHeading 2, MsgBasicTts (take 50 BASIC_TEXT), MsgUsingVoice ''Rachel'',
           MsgError VOICE_ID_REQUIRED] @ a @ [MsgDemoHeading 4] @ b @ [MsgDemoHeading 5] @ c @
          [MsgAllDone, MsgCheckFiles])
   \<and> voices_get_all failing_sdk (calls key_world @ [NewClient ''test-key''])
        (ElevenLabs ''test-key'') = Inr [drew, rachel]
   \<and> voice_without_id failing_sdk (voice_by_name ''Rachel'') = None
   \<and> generate failing_sdk
        (calls key_world @ [NewClient ''test-key'', GetAll (ElevenLabs ''test-key'')])
        (ElevenLabs ''test-key'')
        \<lparr>req_text = BASIC_TEXT, req_voice = VoiceObj (voice_by_name ''Rachel''),
         req_model = ''eleven_monolingual_v1'', req_stream = None\<rparr> =
        Inl (OtherError ''remote failure'')
   \<and> snd (main failing_sdk key_world) = Inr ()
   \<and> (\<exists>pre a b c. console (fst (main failing_sdk key_world)) =
        console key_world @ pre @
          [MsgDemoHeading 2, MsgBasicTts (take 50 BASIC_TEXT), MsgUsingVoice ''Rachel'',
           MsgError (OtherError ''remote failure'')] @ a @ [MsgDemoHeading 4] @ b @
          [MsgDemoHeading 5] @ c @ [MsgAllDone, MsgCheckFiles])"
proof -
  have h: "environ key_world API_KEY_VAR = Some ''test-key''" "''test-key'' \<noteq> []"
    "voices_get_all strict_sdk (calls key_world @ [NewClient ''test-key''])
        (ElevenLabs ''test-key'') = Inr [drew, rachel]"
    "voice_without_id strict_sdk (voice_by_name ''Rachel'') = Some VOICE_ID_REQUIRED"
    "voices_get_all failing_sdk (calls key_world @ [NewClient ''test-key''])
        (ElevenLabs ''test-key'') = Inr [drew, rachel]"
    "voice_without_id failing_sdk (voice_by_name ''Rachel'') = None"
    "generate failing_sdk
        (calls key_world @ [NewClient ''test-key'', GetAll (ElevenLabs ''test-key'')])
        (ElevenLabs ''test-key'')
        \<lparr>req_text = BASIC_TEXT, req_voice = VoiceObj (voice_by_name ''Rachel''),
         req_model = ''eleven_monolingual_v1'', req_stream = None\<rparr> =
        Inl (OtherError ''remote failure'')"
    by (simp_all add: key_world_def empty_world_def strict_sdk_def failing_sdk_def
        fake_sdk_def)
  show ?thesis
    using basic_tts_failure_contained [of strict_sdk test_demo "''Hello''" "''Rachel''"
        "''out.mp3''" key_world VOICE_ID_REQUIRED "''test-key''" "[drew, rachel]"]
      basic_tts_failure_contained [of failing_sdk test_demo "''Hello''" "''Rachel''"
        "''out.mp3''" key_world "OtherError ''remote failure''" "''test-key''"
        "[drew, rachel]"] h
    by blast
qed

section \<open>Streaming\<close>

text \<open>When the \<^verbatim>\<open>Voice\<close> is built and the synthesis call returns a chunk sequence, the
  operation hands that very sequence to the playback sink in one call, right after the
  synthesis call.\<close>

lemma streaming_tts_hands_over:
  assumes "voice_without_id s (voice_by_name v) = None"
    and "generate s (calls w) (client d)
       \<lparr>req_text = t, req_voice = VoiceObj (voice_by_name v),
        req_model = ''eleven_turbo_v2'', req_stream = Some True\<rparr> = Inr (ChunkSeq xs)"
  shows "calls (fst (streaming_tts s d t v w)) = calls w @
       [Generate (client d)
          \<lparr>req_text = t, req_voice = VoiceObj (voice_by_name v),
           req_model = ''eleven_turbo_v2'', req_stream = Some True\<rparr>,
        Stream (ChunkSeq xs)]"
    and "streamed_chunks (calls (fst (streaming_tts s d t v w))) =
       streamed_chunks (calls w) @ xs"
proof -
  show c: "calls (fst (streaming_tts s d t v w)) = calls w @
       [Generate (client d)
          \<lparr>req_text = t, req_voice = VoiceObj (voice_by_name v),
           req_model = ''eleven_turbo_v2'', req_stream = Some True\<rparr>,
        Stream (ChunkSeq xs)]"
    using assms by (simp add: streaming_tts_def io_defs split: option.splits)
  show "streamed_chunks (calls (fst (streaming_tts s d t v w))) =
       streamed_chunks (calls w) @ xs"
    by (simp add: c streamed_chunks_append)
qed


section \<open>Basic synthesis, end to end\<close>

text \<open>When the \<^verbatim>\<open>Voice\<close> is built, the synthesis call returns audio and the write succeeds,
  the file holds the bytes of the audio and the audio is played once.\<close>

lemma basic_tts_saved_and_played:
  assumes "voice_without_id s (voice_by_name v) = None"
    and "generate s (calls w) (client d)
       \<lparr>req_text = t, req_voice = VoiceObj (voice_by_name v),
        req_model = ''eleven_monolingual_v1'', req_stream = None\<rparr> = Inr a"
    and "save_error s (calls w @ [Generate (client d)
       \<lparr>req_text = t, req_voice = VoiceObj (voice_by_name v),
        req_model = ''eleven_monolingual_v1'', req_stream = None\<rparr>]) a out = None"
  shows "files (fst (basic_tts s d t v out w)) out = Some (audio_bytes a)"
    and "played (calls (fst (basic_tts s d t v out w))) = played (calls w) @ [a]"
  using assms
  by (simp_all add: basic_tts_def io_defs played_append split: option.splits)

text \<open>
  C6. The scenario does not end with the file written and the audio played when \<^verbatim>\<open>Voice\<close>
  raises for a name alone, as the released SDK's does: \<^verbatim>\<open>basic_tts\<close> builds its \<^verbatim>\<open>Voice\<close>
  from the name inside the \<^verbatim>\<open>try\<close>, before the synthesis call. With the credential
  \<^verbatim>\<open>test-key\<close>, the text \<^verbatim>\<open>Hello\<close>, the voice \<^verbatim>\<open>Rachel\<close>, the output path \<^verbatim>\<open>out.mp3\<close> and a
  synthesis call that would return the buffer \<^verbatim>\<open>RIFF...\<close>, the run returns normally with
  the error line printed; the construction of the client is its only external call, the
  file \<^verbatim>\<open>out.mp3\<close> does not exist afterwards, and nothing was played.
\<close>

theorem basic_tts_end_to_end_nothing_written:
  "generate strict_sdk [NewClient ''test-key''] (ElevenLabs ''test-key'')
      \<lparr>req_text = ''Hello'', req_voice = VoiceObj (voice_by_name ''Rachel''),
       req_model = ''eleven_monolingual_v1'', req_stream = None\<rparr> = Inr (Buffer ''RIFF...'')
   \<and> voice_without_id strict_sdk (voice_by_name ''Rachel'') = Some VOICE_ID_REQUIRED
   \<and> snd (bind_io (ElevenLabsDemo_init (Some ''test-key''))
        (\<lambda>demo. basic_tts strict_sdk demo ''Hello'' ''Rachel'' ''out.mp3'') empty_world) = Inr ()
   \<and> calls (fst (bind_io (ElevenLabsDemo_init (Some ''test-key''))
        (\<lambda>demo. basic_tts strict_sdk demo ''Hello'' ''Rachel'' ''out.mp3'') empty_world)) =
       [NewClient ''test-key'']
   \<and> console (fst (bind_io (ElevenLabsDemo_init (Some ''test-key''))
        (\<lambda>demo. basic_tts strict_sdk demo ''Hello'' ''Rachel'' ''out.mp3'') empty_world)) =
       [MsgBasicTts ''Hello'', MsgUsingVoice ''Rachel'', MsgError VOICE_ID_REQUIRED]
   \<and> files (fst (bind_io (ElevenLabsDemo_init (Some ''test-key''))
        (\<lambda>demo. basic_tts strict_sdk demo ''Hello'' ''Rachel'' ''out.mp3'') empty_world))
        ''out.mp3'' = None
   \<and> played (calls (fst (bind_io (ElevenLabsDemo_init (Some ''test-key''))
        (\<lambda>demo. basic_tts strict_sdk demo ''Hello'' ''Rachel'' ''out.mp3'') empty_world))) = []"
proof -
  have v: "voice_without_id strict_sdk (voice_by_name ''Rachel'') = Some VOICE_ID_REQUIRED"
    by (simp add: strict_sdk_def)
  have g: "generate strict_sdk [NewClient ''test-key''] (ElevenLabs ''test-key'')
      \<lparr>req_text = ''Hello'', req_voice = VoiceObj (voice_by_name ''Rachel''),
       req_model = ''eleven_monolingual_v1'', req_stream = None\<rparr> = Inr (Buffer ''RIFF...'')"
    by (simp add: strict_sdk_def fake_sdk_def)
  have i: "ElevenLabsDemo_init (Some ''test-key'') empty_world =
      (record_call (NewClient ''test-key'') empty_world,
       Inr \<lparr>api_key = ''test-key'', client = ElevenLabs ''test-key''\<rparr>)"
    by (simp add: ElevenLabsDemo_init_def return_io_def raise_io_def bind_io_def getenv_def
        new_client_def py_or_def)
  have r: "bind_io (ElevenLabsDemo_init (Some ''test-key''))
        (\<lambda>demo. basic_tts strict_sdk demo ''Hello'' ''Rachel'' ''out.mp3'') empty_world =
      (empty_world\<lparr>console :=
          [MsgBasicTts ''Hello'', MsgUsingVoice ''Rachel'', MsgError VOICE_ID_REQUIRED],
        calls := [NewClient ''test-key'']\<rparr>, Inr ())"
    by (simp add: bind_io_def i basic_tts_rejected [OF v])
      (simp add: record_call_def empty_world_def)
  show ?thesis
    by (simp add: v g r) (simp add: empty_world_def)
qed

section \<open>What is sent to the remote call\<close>

text \<open>
  C7. Every synthesis request that an operation issues carries the operation's own fixed
  model string, whatever the inputs and whatever the collaborators answer. \<^verbatim>\<open>basic_tts\<close>
  issues one request with \<^verbatim>\<open>eleven_monolingual_v1\<close> when its \<^verbatim>\<open>Voice\<close> is built and none
  when building it raises; \<^verbatim>\<open>demo_multiple_voices\<close> issues, in the order of its four names,
  one request with \<^verbatim>\<open>eleven_monolingual_v1\<close> for each name whose \<^verbatim>\<open>Voice\<close> is built;
  \<^verbatim>\<open>advanced_tts_with_settings\<close> always issues one request, with \<^verbatim>\<open>eleven_multilingual_v2\<close>;
  \<^verbatim>\<open>streaming_tts\<close> issues one request with \<^verbatim>\<open>eleven_turbo_v2\<close> and \<^verbatim>\<open>stream=True\<close> when its
  \<^verbatim>\<open>Voice\<close> is built and none when building it raises.
\<close>

theorem fixed_model_selectors:
  "map req_model (generate_requests (calls (fst (basic_tts s d t v out w)))) =
     map req_model (generate_requests (calls w)) @
       (case voice_without_id s (voice_by_name v) of
          None \<Rightarrow> [''eleven_monolingual_v1''] | Some e \<Rightarrow> [])
   \<and> map req_model (generate_requests (calls (fst (demo_multiple_voices s d t w)))) =
     map req_model (generate_requests (calls w)) @
       concat (map (\<lambda>n. case voice_without_id s (voice_by_name n) of
                None \<Rightarrow> [''eleven_monolingual_v1''] | Some e \<Rightarrow> [])
         [''Rachel'', ''Drew'', ''Clyde'', ''Paul''])
   \<and> map req_model (generate_requests
        (calls (fst (advanced_tts_with_settings s d t vid stab sim sty boost out w)))) =
     map req_model (generate_requests (calls w)) @ [''eleven_multilingual_v2'']
   \<and> map req_model (generate_requests (calls (fst (streaming_tts s d t v w)))) =
     map req_model (generate_requests (calls w)) @
       (case voice_without_id s (voice_by_name v) of
          None \<Rightarrow> [''eleven_turbo_v2''] | Some e \<Rightarrow> [])
   \<and> map req_stream (generate_requests (calls (fst (streaming_tts s d t v w)))) =
     map req_stream (generate_requests (calls w)) @
       (case voice_without_id s (voice_by_name v) of
          None \<Rightarrow> [Some True] | Some e \<Rightarrow> [])"
  by (simp add: basic_tts_requests demo_multiple_voices_requests advanced_requests
      streaming_requests split: option.splits)

text \<open>
  C8. For all four tuning values, inside \<open>[0,1]\<close> or not, \<^verbatim>\<open>advanced_tts_with_settings\<close>
  issues exactly one synthesis request, and the voice settings of that request hold the
  four values as given; the operation returns normally, so nothing is rejected locally.
\<close>

theorem advanced_settings_forwarded:
  "generate_requests
     (calls (fst (advanced_tts_with_settings s d t vid stab sim sty boost out w))) =
   generate_requests (calls w) @
     [\<lparr>req_text = t,
       req_voice = VoiceObj \<lparr>voice_id = Some vid, name = None,
         settings = Some \<lparr>stability = stab, similarity_boost = sim, style = sty,
           use_speaker_boost = boost\<rparr>\<rparr>,
       req_model = ''eleven_multilingual_v2'', req_stream = None\<rparr>]
   \<and> snd (advanced_tts_with_settings s d t vid stab sim sty boost out w) = Inr ()"
  by (simp add: advanced_requests advanced_total)

section \<open>The simple example\<close>

text \<open>
  C10. \<^verbatim>\<open>simple_example.py\<close> has no credential check. With \<^verbatim>\<open>ELEVENLABS_API_KEY\<close> unset, its
  first two external calls are the construction of the client with the key
  \<^verbatim>\<open>YOUR_API_KEY\<close> and the voice listing through that client, in the very world where
  \<^verbatim>\<open>ElevenLabsDemo()\<close> raises its \<^verbatim>\<open>ValueError\<close>. With the variable set, to the empty string
  even, the client is built with its value. Any exception the script ends with is one that
  a collaborator raised (listing, synthesis, save or playback).
\<close>

theorem simple_example_placeholder_key:
  "(environ w API_KEY_VAR = None \<longrightarrow>
      (\<exists>rest. calls (fst (simple_example s w)) = calls w @
         NewClient ''YOUR_API_KEY'' # GetAll (ElevenLabs ''YOUR_API_KEY'') # rest)
      \<and> ElevenLabsDemo_init None w = (w, Inl (ValueError API_KEY_REQUIRED)))
   \<and> (environ w API_KEY_VAR = Some v \<longrightarrow>
      (\<exists>rest. calls (fst (simple_example s w)) = calls w @
         NewClient v # GetAll (ElevenLabs v) # rest))
   \<and> (snd (simple_example s w) = Inl e \<longrightarrow>
       (\<exists>h c. voices_get_all s h c = Inl e) \<or> (\<exists>h c r. generate s h c r = Inl e)
       \<or> (\<exists>h a p. save_error s h a p = Some e) \<or> (\<exists>h a. play_error s h a = Some e))"
proof (intro conjI impI)
  assume "environ w API_KEY_VAR = None"
  then show "\<exists>rest. calls (fst (simple_example s w)) = calls w @
         NewClient ''YOUR_API_KEY'' # GetAll (ElevenLabs ''YOUR_API_KEY'') # rest"
    using simple_example_calls [of s w] by simp
next
  assume "environ w API_KEY_VAR = None"
  then show "ElevenLabsDemo_init None w = (w, Inl (ValueError API_KEY_REQUIRED))"
    by (simp add: ElevenLabsDemo_init_def return_io_def raise_io_def bind_io_def getenv_def
        py_or_def)
next
  assume "environ w API_KEY_VAR = Some v"
  then show "\<exists>rest. calls (fst (simple_example s w)) = calls w @
         NewClient v # GetAll (ElevenLabs v) # rest"
    using simple_example_calls [of s w] by simp
next
  assume "snd (simple_example s w) = Inl e"
  then show "(\<exists>h c. voices_get_all s h c = Inl e) \<or> (\<exists>h c r. generate s h c r = Inl e)
       \<or> (\<exists>h a p. save_error s h a p = Some e) \<or> (\<exists>h a. play_error s h a = Some e)"
    by (rule simple_example_error)
qed

theorem simple_example_placeholder_key_witness:
  "environ empty_world API_KEY_VAR = None
   \<and> (\<exists>rest. calls (fst (simple_example fake_sdk empty_world)) =
         NewClient ''YOUR_API_KEY'' # GetAll (ElevenLabs ''YOUR_API_KEY'') # rest)
   \<and> ElevenLabsDemo_init None empty_world = (empty_world, Inl (ValueError API_KEY_REQUIRED))
   \<and> environ key_world API_KEY_VAR = Some ''test-key''
   \<and> (\<exists>rest. calls (fst (simple_example fake_sdk key_world)) =
         NewClient ''test-key'' # GetAll (ElevenLabs ''test-key'') # rest)
   \<and> snd (simple_example failing_sdk empty_world) = Inl (OtherError ''remote failure'')
   \<and> (\<exists>h c r. generate failing_sdk h c r = Inl (OtherError ''remote failure''))"
proof -
  have h: "environ empty_world API_KEY_VAR = None"
    "environ key_world API_KEY_VAR = Some ''test-key''"
    "calls empty_world = []" "calls key_world = []"
    by (simp_all add: key_world_def empty_world_def)
  have f: "snd (simple_example failing_sdk empty_world) = Inl (OtherError ''remote failure'')"
    by code_simp
  have g: "generate failing_sdk [] (ElevenLabs []) r = Inl (OtherError ''remote failure'')" for r
    by (simp add: failing_sdk_def)
  show ?thesis
    using simple_example_placeholder_key [of empty_world fake_sdk "''test-key''"
        "OtherError ''remote failure''"]
      simple_example_placeholder_key [of key_world fake_sdk "''test-key''"
        "OtherError ''remote failure''"]
      simple_example_placeholder_key [of empty_world failing_sdk "''test-key''"
        "OtherError ''remote failure''"] h f g
    by (simp only: simp_thms append_Nil) blast
qed

end
